theory Spec2Isabelle
  imports Complex_Main
begin

section \<open>Arrays, errors and slices\<close>

text \<open>
  The engine of \<^verbatim>\<open>smt/utils/kriging_utils.py\<close> works on numpy arrays of floats. A
  two-dimensional array is a record of its column count and its rows (the column count is kept
  because an array with no rows still has a width), over any type of entries; a
  one-dimensional array is a list. Every exception of the source that the model can reach is
  a value of \<open>error\<close>.

  The kernels and the plain distances are modelled over the real numbers (\<open>ndarray\<close>): what is
  proved of them is about shapes, orders, loops and errors, and about the exact values of the
  formulas; rounding, overflow to infinity and NaN are outside that part of the model. The
  Gower distance, whose guards are about zero, NaN and infinity, is modelled over an arbitrary
  floating-point arithmetic instead.
\<close>

datatype error =
  ValueError | IndexError | TypeError | KeyError | NameError | ZeroDivisionError | PyException

record 'a nd_array =
  ncols :: nat
  rows :: "'a list list"

type_synonym ndarray = "real nd_array"

definition nrows :: "'a nd_array \<Rightarrow> nat" where
  "nrows A = length (rows A)"


text \<open>\<^verbatim>\<open>np.zeros((n, m))\<close>.\<close>

definition zeros :: "nat \<Rightarrow> nat \<Rightarrow> ndarray" where
  "zeros n m = \<lparr>ncols = m, rows = replicate n (replicate m 0)\<rparr>"

text \<open>
  The slice \<^verbatim>\<open>xs[lo:hi]\<close> for \<open>0 \<le> lo \<le> hi\<close>: Python clamps both ends to the length.
\<close>

definition slice :: "nat \<Rightarrow> nat \<Rightarrow> 'a list \<Rightarrow> 'a list" where
  "slice lo hi xs = take (hi - lo) (drop lo xs)"

text \<open>
  The slice assignment \<^verbatim>\<open>xs[lo:hi] = vs\<close>. A numpy array never changes its shape under
  assignment: position \<open>p\<close> of the slice receives \<open>vs[p - lo]\<close>, every other position keeps its
  value. At every call of the source \<open>vs\<close> is computed from the same slice of an array with as
  many rows as \<open>xs\<close>, so \<open>vs\<close> has exactly the slice's length.
\<close>

definition assign_slice :: "nat \<Rightarrow> nat \<Rightarrow> 'a list \<Rightarrow> 'a list \<Rightarrow> 'a list" where
  "assign_slice lo hi vs xs =
     map (\<lambda>p. if lo \<le> p \<and> p < hi \<and> p - lo < length vs then vs ! (p - lo) else xs ! p)
       [0..<length xs]"

text \<open>The chunk size \<^verbatim>\<open>nb_limit = int(1e4)\<close> of every chunked loop.\<close>

definition nb_limit :: nat where
  "nb_limit = 10000"

section \<open>componentwise_distance and componentwise_distance_PLS\<close>

text \<open>
  Assigning a block of rows of width \<open>m\<close> to rows of width \<open>w\<close>
  (\<^verbatim>\<open>D_corr[a:b, :] = block\<close>): numpy broadcasts a block of width one over the \<open>w\<close> columns and
  raises \<^verbatim>\<open>ValueError\<close> for any other width mismatch, also when the block has no rows.
\<close>

definition broadcast_cols :: "nat \<Rightarrow> nat \<Rightarrow> real list list \<Rightarrow> error + real list list" where
  "broadcast_cols w m block =
     (if m = w then Inr block
      else if m = 1 then Inr (map (\<lambda>r. replicate w (hd r)) block)
      else Inl ValueError)"

text \<open>The right-hand side of one chunk of \<^verbatim>\<open>componentwise_distance\<close>, by kernel name.\<close>

definition cd_block :: "string \<Rightarrow> real list list \<Rightarrow> real list list" where
  "cd_block corr block =
     (if corr = ''squar_exp'' then map (map (\<lambda>x. x ^ 2)) block
      else if corr = ''act_exp'' then block
      else map (map abs) block)"

text \<open>
  The \<^verbatim>\<open>while True\<close> loop of the value mode. The state is the chunk counter \<open>i\<close> and
  \<open>D_corr\<close>; the loop returns when \<open>i * nb_limit > D_corr.shape[0]\<close>. The counter is returned
  with the array so that the number of iterations can be stated.
\<close>

function cd_loop :: "string \<Rightarrow> ndarray \<Rightarrow> nat \<Rightarrow> ndarray \<Rightarrow> error + (nat \<times> ndarray)" where
  "cd_loop corr D i D_corr =
     (if i * nb_limit > nrows D_corr then Inr (i, D_corr)
      else
        (case broadcast_cols (ncols D_corr) (ncols D)
                (cd_block corr (slice (i * nb_limit) ((i + 1) * nb_limit) (rows D))) of
           Inl e \<Rightarrow> Inl e
         | Inr block \<Rightarrow>
             cd_loop corr D (i + 1)
               (D_corr\<lparr>rows :=
                  assign_slice (i * nb_limit) ((i + 1) * nb_limit) block (rows D_corr)\<rparr>)))"
  by pat_completeness auto
termination
  by (relation "measure (\<lambda>(corr, D, i, D_corr). Suc (nrows D_corr) - i * nb_limit)")
    (auto simp: nrows_def assign_slice_def nb_limit_def)

text \<open>
  \<^verbatim>\<open>np.einsum("j,ij->ij", v, M)\<close>: column \<open>j\<close> of \<open>M\<close> is scaled by \<open>v[j]\<close>; an axis of size one
  is broadcast, any other mismatch of the \<open>j\<close> axis raises \<^verbatim>\<open>ValueError\<close>.
\<close>

definition einsum_j_ij :: "real list \<Rightarrow> ndarray \<Rightarrow> error + ndarray" where
  "einsum_j_ij v M =
     (if length v = ncols M then Inr (M\<lparr>rows := map (\<lambda>r. map2 (*) v r) (rows M)\<rparr>)
      else if length v = 1 then Inr (M\<lparr>rows := map (map (\<lambda>x. hd v * x)) (rows M)\<rparr>)
      else if ncols M = 1
        then Inr \<lparr>ncols = length v, rows = map (\<lambda>r. map (\<lambda>t. t * hd r) v) (rows M)\<rparr>
      else Inl ValueError)"

text \<open>The sign matrix \<^verbatim>\<open>der\<close>: \<open>-1\<close> where \<open>D\<close> is negative, \<open>1\<close> elsewhere.\<close>

definition der_sign :: "ndarray \<Rightarrow> ndarray" where
  "der_sign D = D\<lparr>rows := map (map (\<lambda>x. if x < 0 then - 1 else 1)) (rows D)\<rparr>"

definition scale2 :: "ndarray \<Rightarrow> ndarray" where
  "scale2 M = M\<lparr>rows := map (map (\<lambda>x. 2 * x)) (rows M)\<rparr>"

text \<open>
  \<^verbatim>\<open>componentwise_distance(D, corr, dim, theta=None, return_derivative=False)\<close>.
\<close>

definition componentwise_distance ::
  "ndarray \<Rightarrow> string \<Rightarrow> nat \<Rightarrow> real list option \<Rightarrow> bool \<Rightarrow> error + ndarray" where
  "componentwise_distance D corr dim' theta return_derivative =
     (if \<not> return_derivative then
        (case cd_loop corr D 0 (zeros (nrows D) dim') of
           Inl e \<Rightarrow> Inl e
         | Inr (i, D_corr) \<Rightarrow> Inr D_corr)
      else
        (case theta of
           None \<Rightarrow> Inl ValueError
         | Some th \<Rightarrow>
             if corr = ''squar_exp'' then
               (case einsum_j_ij th D of Inl e \<Rightarrow> Inl e | Inr M \<Rightarrow> Inr (scale2 M))
             else if corr = ''act_exp'' then Inl ValueError
             else einsum_j_ij th (der_sign D)))"

text \<open>
  \<^verbatim>\<open>np.dot(A, B)\<close> for a block of rows \<open>A\<close> of width \<open>m\<close> and a \<open>p \<times> q\<close> matrix \<open>B\<close>: the inner
  dimensions must agree.
\<close>

definition dot_row :: "real list \<Rightarrow> ndarray \<Rightarrow> real list" where
  "dot_row r B = map (\<lambda>j. sum_list (map2 (\<lambda>a b. a * b ! j) r (rows B))) [0..<ncols B]"

definition np_dot :: "nat \<Rightarrow> real list list \<Rightarrow> ndarray \<Rightarrow> error + real list list" where
  "np_dot m A B = (if m = nrows B then Inr (map (\<lambda>r. dot_row r B) A) else Inl ValueError)"

definition map_ndarray :: "(real \<Rightarrow> real) \<Rightarrow> ndarray \<Rightarrow> ndarray" where
  "map_ndarray f M = M\<lparr>rows := map (map f) (rows M)\<rparr>"

text \<open>One chunk of \<^verbatim>\<open>componentwise_distance_PLS\<close>: the product with the PLS coefficients.\<close>

definition pls_block :: "string \<Rightarrow> nat \<Rightarrow> real list list \<Rightarrow> ndarray \<Rightarrow> error + real list list" where
  "pls_block corr m block coeff_pls =
     (if corr = ''squar_exp''
        then np_dot m (map (map (\<lambda>x. x ^ 2)) block) (map_ndarray (\<lambda>x. x ^ 2) coeff_pls)
        else np_dot m (map (map abs) block) (map_ndarray abs coeff_pls))"

function pls_loop ::
  "string \<Rightarrow> ndarray \<Rightarrow> ndarray \<Rightarrow> nat \<Rightarrow> ndarray \<Rightarrow> error + (nat \<times> ndarray)" where
  "pls_loop corr D coeff_pls i D_corr =
     (if i * nb_limit > nrows D_corr then Inr (i, D_corr)
      else
        (case pls_block corr (ncols D)
                (slice (i * nb_limit) ((i + 1) * nb_limit) (rows D)) coeff_pls of
           Inl e \<Rightarrow> Inl e
         | Inr pr \<Rightarrow>
             (case broadcast_cols (ncols D_corr) (ncols coeff_pls) pr of
                Inl e \<Rightarrow> Inl e
              | Inr block \<Rightarrow>
                  pls_loop corr D coeff_pls (i + 1)
                    (D_corr\<lparr>rows :=
                       assign_slice (i * nb_limit) ((i + 1) * nb_limit) block (rows D_corr)\<rparr>))))"
  by pat_completeness auto
termination
  by (relation "measure (\<lambda>(corr, D, coeff_pls, i, D_corr). Suc (nrows D_corr) - i * nb_limit)")
    (auto simp: nrows_def assign_slice_def nb_limit_def)

text \<open>The coefficient \<open>\<Sum>l<n_comp. theta[l] * f(coeff_pls[j][l])\<close> of the derivative mode;
  both indexings raise \<^verbatim>\<open>IndexError\<close> out of range.\<close>

fun pls_coef :: "(real \<Rightarrow> real) \<Rightarrow> real list \<Rightarrow> ndarray \<Rightarrow> nat \<Rightarrow> nat list \<Rightarrow> real \<Rightarrow> error + real" where
  "pls_coef f theta coeff_pls j [] coef = Inr coef"
| "pls_coef f theta coeff_pls j (l # ls) coef =
     (if l < length theta \<and> j < nrows coeff_pls \<and> l < ncols coeff_pls
      then pls_coef f theta coeff_pls j ls (coef + theta ! l * f (rows coeff_pls ! j ! l))
      else Inl IndexError)"

text \<open>Sequencing of fallible computations over a list, stopping at the first error.\<close>

fun mapM :: "('a \<Rightarrow> error + 'b) \<Rightarrow> 'a list \<Rightarrow> error + 'b list" where
  "mapM f [] = Inr []"
| "mapM f (x # xs) =
     (case f x of
        Inl e \<Rightarrow> Inl e
      | Inr y \<Rightarrow> (case mapM f xs of Inl e \<Rightarrow> Inl e | Inr ys \<Rightarrow> Inr (y # ys)))"

definition pls_derivative :: "string \<Rightarrow> ndarray \<Rightarrow> nat \<Rightarrow> ndarray \<Rightarrow> real list \<Rightarrow> error + ndarray" where
  "pls_derivative corr D n_comp coeff_pls theta =
     (case mapM (\<lambda>r. mapM (\<lambda>j.
               if corr = ''squar_exp'' then
                 (case pls_coef (\<lambda>c. c ^ 2) theta coeff_pls j [0..<n_comp] 0 of
                    Inl e \<Rightarrow> Inl e | Inr coef \<Rightarrow> Inr (2 * coef * r ! j))
               else
                 (case pls_coef abs theta coeff_pls j [0..<n_comp] 0 of
                    Inl e \<Rightarrow> Inl e
                  | Inr coef \<Rightarrow> Inr (coef * (if r ! j < 0 then - 1 else 1))))
             [0..<ncols D]) (rows D) of
        Inl e \<Rightarrow> Inl e
      | Inr rs \<Rightarrow> Inr \<lparr>ncols = ncols D, rows = rs\<rparr>)"

text \<open>
  \<^verbatim>\<open>componentwise_distance_PLS(D, corr, n_comp, coeff_pls, theta=None,
  return_derivative=False)\<close>.
\<close>

definition componentwise_distance_PLS ::
  "ndarray \<Rightarrow> string \<Rightarrow> nat \<Rightarrow> ndarray \<Rightarrow> real list option \<Rightarrow> bool \<Rightarrow> error + ndarray" where
  "componentwise_distance_PLS D corr n_comp coeff_pls theta return_derivative =
     (if \<not> return_derivative then
        (case pls_loop corr D coeff_pls 0 (zeros (nrows D) n_comp) of
           Inl e \<Rightarrow> Inl e
         | Inr (i, D_corr) \<Rightarrow> Inr D_corr)
      else
        (case theta of
           None \<Rightarrow> Inl ValueError
         | Some th \<Rightarrow> pls_derivative corr D n_comp coeff_pls th))"

section \<open>The correlation kernels\<close>

text \<open>
  Python indexing of an axis of size \<open>n\<close> with an integer: negative indices count from the end,
  anything outside \<open>[-n, n)\<close> raises \<^verbatim>\<open>IndexError\<close>.
\<close>

definition py_index :: "nat \<Rightarrow> int \<Rightarrow> error + nat" where
  "py_index n i =
     (if - int n \<le> i \<and> i < int n then Inr (nat (if i < 0 then i + int n else i))
      else Inl IndexError)"

text \<open>
  The chunked loop shared by the kernels,
  \<^verbatim>\<open>while i * nb_limit <= d.shape[0]: r[i*nb_limit:(i+1)*nb_limit, 0] = ...; i += 1\<close>.
  The right-hand side is computed row by row from the rows of the chunk of \<open>d\<close> (with whatever
  the kernel reads beside them, for instance the saved copy \<^verbatim>\<open>M52\<close>) and from the old values
  of the same chunk of \<open>r\<close>: \<open>body\<close> is that row-wise computation, \<open>d\<close> the list of its row
  contexts, and \<open>r\<close> column 0 of the array \<open>r\<close>.
\<close>

function while_chunks :: "('a \<Rightarrow> real \<Rightarrow> real) \<Rightarrow> 'a list \<Rightarrow> nat \<Rightarrow> real list \<Rightarrow> real list" where
  "while_chunks body d i r =
     (if i * nb_limit \<le> length d
      then while_chunks body d (i + 1)
             (assign_slice (i * nb_limit) ((i + 1) * nb_limit)
                (map2 body (slice (i * nb_limit) ((i + 1) * nb_limit) d)
                           (slice (i * nb_limit) ((i + 1) * nb_limit) r)) r)
      else r)"
  by pat_completeness auto
termination
  by (relation "measure (\<lambda>(body, d, i, r). Suc (length d) - i * nb_limit)")
    (auto simp: nb_limit_def)

text \<open>\<^verbatim>\<open>np.sum(theta.reshape(1, n_components) * row)\<close> for one row.\<close>

definition theta_dot :: "real list \<Rightarrow> real list \<Rightarrow> real" where
  "theta_dot theta row = sum_list (map2 (*) theta row)"

subsection \<open>abs_exp and squar_exp\<close>

text \<open>
  The two exponential kernels share their three loops: the value
  \<open>exp(-\<Sum> theta * d)\<close>, then a factor \<open>-d[:, grad_ind]\<close>, then a factor \<open>-d[:, hess_ind]\<close>.
  \<^verbatim>\<open>theta.reshape(1, n_components)\<close> raises \<^verbatim>\<open>ValueError\<close> unless \<open>theta\<close> has
  \<open>n_components\<close> entries; the column indices raise \<^verbatim>\<open>IndexError\<close> out of range. Each loop
  runs its body at least once (\<open>0 \<le> d.shape[0]\<close>), so these errors do not depend on \<open>d\<close>
  having rows.
\<close>

definition exp_value_row :: "real list \<Rightarrow> real list \<Rightarrow> real \<Rightarrow> real" where
  "exp_value_row theta row old = exp (- theta_dot theta row)"

definition exp_factor_row :: "nat \<Rightarrow> real list \<Rightarrow> real \<Rightarrow> real" where
  "exp_factor_row c row old = - (row ! c) * old"

definition exp_loops :: "real list \<Rightarrow> ndarray \<Rightarrow> int option \<Rightarrow> int option \<Rightarrow> error + real list" where
  "exp_loops theta d grad_ind hess_ind =
     (if length theta \<noteq> ncols d then Inl ValueError
      else
        let r = while_chunks (exp_value_row theta) (rows d) 0 (replicate (nrows d) 0) in
        (case (case grad_ind of
                 None \<Rightarrow> Inr r
               | Some g \<Rightarrow>
                   (case py_index (ncols d) g of
                      Inl e \<Rightarrow> Inl e
                    | Inr gc \<Rightarrow> Inr (while_chunks (exp_factor_row gc) (rows d) 0 r))) of
           Inl e \<Rightarrow> Inl e
         | Inr r1 \<Rightarrow>
             (case hess_ind of
                None \<Rightarrow> Inr r1
              | Some h \<Rightarrow>
                  (case py_index (ncols d) h of
                     Inl e \<Rightarrow> Inl e
                   | Inr hc \<Rightarrow> Inr (while_chunks (exp_factor_row hc) (rows d) 0 r1)))))"

text \<open>
  \<^verbatim>\<open>abs_exp(theta, d, grad_ind=None, hess_ind=None, derivative_params=None)\<close> with
  \<^verbatim>\<open>derivative_params\<close> left at \<^verbatim>\<open>None\<close>: the value, gradient and Hessian modes.
\<close>

definition abs_exp :: "real list \<Rightarrow> ndarray \<Rightarrow> int option \<Rightarrow> int option \<Rightarrow> error + real list" where
  "abs_exp theta d grad_ind hess_ind = exp_loops theta d grad_ind hess_ind"

text \<open>
  A parameter dictionary (\<^verbatim>\<open>derivative_params\<close>, \<^verbatim>\<open>hess_params\<close>) maps names to arrays;
  a missing key raises \<^verbatim>\<open>KeyError\<close>.
\<close>

type_synonym params = "string \<rightharpoonup> ndarray"

definition lookup :: "params \<Rightarrow> string \<Rightarrow> error + ndarray" where
  "lookup p k = (case p k of None \<Rightarrow> Inl KeyError | Some a \<Rightarrow> Inr a)"

text \<open>
  \<^verbatim>\<open>np.einsum("i,ij->ij", v, M)\<close>: row \<open>i\<close> of \<open>M\<close> is scaled by \<open>v[i]\<close>, with an axis of size
  one broadcast and any other mismatch of the \<open>i\<close> axis a \<^verbatim>\<open>ValueError\<close>.
\<close>

definition einsum_i_ij :: "real list \<Rightarrow> ndarray \<Rightarrow> error + ndarray" where
  "einsum_i_ij v M =
     (if length v = nrows M then Inr (M\<lparr>rows := map2 (\<lambda>a r. map ((*) a) r) v (rows M)\<rparr>)
      else if length v = 1 then Inr (M\<lparr>rows := map (map ((*) (hd v))) (rows M)\<rparr>)
      else if nrows M = 1 then Inr (M\<lparr>rows := map (\<lambda>a. map ((*) a) (hd (rows M))) v\<rparr>)
      else Inl ValueError)"

text \<open>What a kernel returns: \<open>r\<close>, the pair \<open>(r, dr)\<close>, or the three-dimensional \<open>d2r\<close>.\<close>

datatype kernel_result =
  R "real list"
  | R_dr "real list" ndarray
  | D2r "real list list list"

text \<open>
  One cell \<^verbatim>\<open>d2r[k, i, j] = ...\<close> of the Hessian loop of \<^verbatim>\<open>squar_exp\<close>. At that point
  \<open>r\<close> has been rebound to its transpose \<^verbatim>\<open>r.T\<close> of shape \<open>(1, n)\<close>, so \<open>k\<close> ranges over
  \<^verbatim>\<open>range(r.shape[0]) = range(1)\<close> and \<^verbatim>\<open>r[k]\<close> is the whole row \<open>r0\<close> of \<open>n\<close> values. The product
  is then an array of \<open>n\<close> values, and storing it into the single cell raises
  \<^verbatim>\<open>ValueError\<close> unless \<open>n = 1\<close>. \<^verbatim>\<open>dd[k, i]\<close> raises \<^verbatim>\<open>IndexError\<close> out of range.
\<close>

definition d2r_cell :: "real list \<Rightarrow> ndarray \<Rightarrow> real list \<Rightarrow> nat \<Rightarrow> nat \<Rightarrow> nat \<Rightarrow> error + real" where
  "d2r_cell theta dd r0 k i j =
     (if i = j then
        (if \<not> (i < length theta) then Inl IndexError
         else if \<not> (k < nrows dd \<and> i < ncols dd) then Inl IndexError
         else if length r0 \<noteq> 1 then Inl ValueError
         else Inr (- (2 * theta ! i - rows dd ! k ! i * rows dd ! k ! i) * hd r0))
      else
        (if \<not> (k < nrows dd \<and> i < ncols dd \<and> j < ncols dd) then Inl IndexError
         else if length r0 \<noteq> 1 then Inl ValueError
         else Inr (rows dd ! k ! i * rows dd ! k ! j * hd r0)))"

text \<open>
  \<^verbatim>\<open>squar_exp(theta, d, grad_ind=None, hess_ind=None, derivative_params=None,
  hess_params=None)\<close>. When only \<^verbatim>\<open>hess_params\<close> is given, subscripting the
  \<^verbatim>\<open>None\<close> \<^verbatim>\<open>derivative_params\<close> raises \<^verbatim>\<open>TypeError\<close>.
\<close>

definition squar_exp ::
  "real list \<Rightarrow> ndarray \<Rightarrow> int option \<Rightarrow> int option \<Rightarrow> params option \<Rightarrow> params option
     \<Rightarrow> error + kernel_result" where
  "squar_exp theta d grad_ind hess_ind derivative_params hess_params =
     (case exp_loops theta d grad_ind hess_ind of
        Inl e \<Rightarrow> Inl e
      | Inr r \<Rightarrow>
          if derivative_params = None \<and> hess_params = None then Inr (R r)
          else
            (case derivative_params of
               None \<Rightarrow> Inl TypeError
             | Some dp \<Rightarrow>
                 (case lookup dp ''dd'' of
                    Inl e \<Rightarrow> Inl e
                  | Inr dd \<Rightarrow>
                      (case einsum_i_ij r dd of
                         Inl e \<Rightarrow> Inl e
                       | Inr M \<Rightarrow>
                           (case hess_params of
                              None \<Rightarrow> Inr (R_dr r (map_ndarray uminus M))
                            | Some hp \<Rightarrow>
                                (case lookup hp ''dd'' of
                                   Inl e \<Rightarrow> Inl e
                                 | Inr dd2 \<Rightarrow>
                                     (case mapM (\<lambda>k. mapM (\<lambda>i. mapM (\<lambda>j.
                                                d2r_cell theta dd2 r k i j)
                                              [0..<ncols d]) [0..<ncols d]) [0..<1] of
                                        Inl e \<Rightarrow> Inl e
                                      | Inr cells \<Rightarrow> Inr (D2r cells))))))))"

subsection \<open>matern52 and matern32\<close>

text \<open>
  Both Matern kernels are modelled with \<^verbatim>\<open>derivative_params\<close> (and \<^verbatim>\<open>hess_params\<close>) left
  at \<^verbatim>\<open>None\<close>: the value, gradient and Hessian modes. A division by zero gives \<open>inf\<close> or
  \<open>nan\<close> in numpy and \<open>0\<close> over the reals; the denominator \<open>fact_2\<close> of \<^verbatim>\<open>matern52\<close> is never
  zero, the one of \<^verbatim>\<open>matern32\<close> is zero only for a negative \<open>theta * d\<close>.
\<close>

definition m52_value_row :: "real list \<Rightarrow> real list \<Rightarrow> real \<Rightarrow> real" where
  "m52_value_row theta row old =
     (let ll = map2 (*) theta row
      in prod_list (map (\<lambda>l. 1 + sqrt 5 * l + 5 / 3 * l ^ 2) ll) * exp (- sqrt 5 * sum_list ll))"

definition m52_fact_1 :: "real \<Rightarrow> real \<Rightarrow> real" where
  "m52_fact_1 t x = sqrt 5 * x + 10 / 3 * t * x ^ 2"

definition m52_fact_2 :: "real \<Rightarrow> real \<Rightarrow> real" where
  "m52_fact_2 t x = 1 + sqrt 5 * t * x + 5 / 3 * t ^ 2 * x ^ 2"

definition m52_fact_3 :: "real \<Rightarrow> real" where
  "m52_fact_3 x = sqrt 5 * x"

definition m52_grad_row :: "real list \<Rightarrow> nat \<Rightarrow> real list \<Rightarrow> real \<Rightarrow> real" where
  "m52_grad_row theta c row old =
     (m52_fact_1 (theta ! c) (row ! c) / m52_fact_2 (theta ! c) (row ! c) - m52_fact_3 (row ! c))
       * old"

text \<open>The Hessian loop reads the row of \<open>d\<close> and the saved value \<^verbatim>\<open>M52\<close> of the row.\<close>

definition m52_hess_row :: "real list \<Rightarrow> nat \<Rightarrow> bool \<Rightarrow> real list \<times> real \<Rightarrow> real \<Rightarrow> real" where
  "m52_hess_row theta c same ctx old =
     (let row = fst ctx; M52 = snd ctx;
          r1 = m52_grad_row theta c row old;
          fact_4 = 10 / 3 * (row ! c) ^ 2 * m52_fact_2 (theta ! c) (row ! c)
      in if same
         then (fact_4 - (m52_fact_1 (theta ! c) (row ! c)) ^ 2)
                / (m52_fact_2 (theta ! c) (row ! c)) ^ 2 * M52 + r1
         else r1)"

text \<open>
  \<^verbatim>\<open>matern52\<close>. \<^verbatim>\<open>theta_r\<close> is bound only inside the \<^verbatim>\<open>grad_ind\<close> branch, so a Hessian
  index without a gradient index raises \<^verbatim>\<open>NameError\<close> (after \<^verbatim>\<open>d[..., hess_ind]\<close> has been
  read).
\<close>

definition matern52 :: "real list \<Rightarrow> ndarray \<Rightarrow> int option \<Rightarrow> int option \<Rightarrow> error + real list" where
  "matern52 theta d grad_ind hess_ind =
     (if length theta \<noteq> ncols d then Inl ValueError
      else
        let r = while_chunks (m52_value_row theta) (rows d) 0 (replicate (nrows d) 0);
            M52 = r in
        (case (case grad_ind of
                 None \<Rightarrow> Inr r
               | Some g \<Rightarrow>
                   (case py_index (ncols d) g of
                      Inl e \<Rightarrow> Inl e
                    | Inr gc \<Rightarrow> Inr (while_chunks (m52_grad_row theta gc) (rows d) 0 r))) of
           Inl e \<Rightarrow> Inl e
         | Inr r1 \<Rightarrow>
             (case hess_ind of
                None \<Rightarrow> Inr r1
              | Some h \<Rightarrow>
                  (case py_index (ncols d) h of
                     Inl e \<Rightarrow> Inl e
                   | Inr hc \<Rightarrow>
                       if grad_ind = None then Inl NameError
                       else Inr (while_chunks (m52_hess_row theta hc (hess_ind = grad_ind))
                                   (zip (rows d) M52) 0 r1)))))"

definition m32_value_row :: "real list \<Rightarrow> real list \<Rightarrow> real \<Rightarrow> real" where
  "m32_value_row theta row old =
     (let ll = map2 (*) theta row
      in prod_list (map (\<lambda>l. 1 + sqrt 3 * l) ll) * exp (- sqrt 3 * sum_list ll))"

definition m32_fact :: "real \<Rightarrow> real \<Rightarrow> real" where
  "m32_fact t x = 1 / (1 + sqrt 3 * t * x) - 1"

definition m32_grad_row :: "real list \<Rightarrow> nat \<Rightarrow> real list \<Rightarrow> real \<Rightarrow> real" where
  "m32_grad_row theta c row old = m32_fact (theta ! c) (row ! c) * old * sqrt 3 * row ! c"

definition m32_hess_row :: "real list \<Rightarrow> nat \<Rightarrow> bool \<Rightarrow> real list \<times> real \<Rightarrow> real \<Rightarrow> real" where
  "m32_hess_row theta c same ctx old =
     (let row = fst ctx; M32 = snd ctx;
          r1 = old * m32_fact (theta ! c) (row ! c) * sqrt 3 * row ! c;
          fact_3 = 3 * (row ! c) ^ 2 / (1 + sqrt 3 * theta ! c * row ! c) ^ 2
      in if same then r1 - fact_3 * M32 else r1)"

definition matern32 :: "real list \<Rightarrow> ndarray \<Rightarrow> int option \<Rightarrow> int option \<Rightarrow> error + real list" where
  "matern32 theta d grad_ind hess_ind =
     (if length theta \<noteq> ncols d then Inl ValueError
      else
        let r = while_chunks (m32_value_row theta) (rows d) 0 (replicate (nrows d) 0);
            M32 = r in
        (case (case grad_ind of
                 None \<Rightarrow> Inr r
               | Some g \<Rightarrow>
                   (case py_index (ncols d) g of
                      Inl e \<Rightarrow> Inl e
                    | Inr gc \<Rightarrow> Inr (while_chunks (m32_grad_row theta gc) (rows d) 0 r))) of
           Inl e \<Rightarrow> Inl e
         | Inr r1 \<Rightarrow>
             (case hess_ind of
                None \<Rightarrow> Inr r1
              | Some h \<Rightarrow>
                  (case py_index (ncols d) h of
                     Inl e \<Rightarrow> Inl e
                   | Inr hc \<Rightarrow>
                       Inr (while_chunks (m32_hess_row theta hc (grad_ind = hess_ind))
                              (zip (rows d) M32) 0 r1)))))"

subsection \<open>act_exp\<close>

text \<open>
  Elementwise product of two one-dimensional arrays, with numpy's broadcasting of a length-one
  operand, and the assignment \<^verbatim>\<open>r[:, 0] = v\<close> to a column of \<open>n\<close> entries.
\<close>

definition bmul :: "real list \<Rightarrow> real list \<Rightarrow> error + real list" where
  "bmul a b =
     (if length a = length b then Inr (map2 (*) a b)
      else if length a = 1 then Inr (map ((*) (hd a)) b)
      else if length b = 1 then Inr (map (\<lambda>x. x * hd b) a)
      else Inl ValueError)"

definition assign_col :: "nat \<Rightarrow> real list \<Rightarrow> error + real list" where
  "assign_col n v =
     (if length v = n then Inr v
      else if length v = 1 then Inr (replicate n (hd v))
      else Inl ValueError)"

definition column :: "nat \<Rightarrow> 'a list list \<Rightarrow> 'a list" where
  "column c rs = map (\<lambda>r. r ! c) rs"

text \<open>
  \<^verbatim>\<open>d_A = d.dot(A)\<close> with \<^verbatim>\<open>A = np.reshape(theta, (n_small_components, n_components)).T\<close>:
  entry \<open>s\<close> of a row of \<open>d_A\<close> is \<open>\<Sum>c. row[c] * theta[s * n_components + c]\<close>.
\<close>

definition d_A_row :: "real list \<Rightarrow> nat \<Rightarrow> nat \<Rightarrow> real list \<Rightarrow> real list" where
  "d_A_row theta n_components n_small_components row =
     map (\<lambda>s. sum_list (map (\<lambda>c. row ! c * theta ! (s * n_components + c)) [0..<n_components]))
       [0..<n_small_components]"

text \<open>
  \<^verbatim>\<open>act_exp(theta, d, grad_ind=None, hess_ind=None, d_x=None, derivative_params=None)\<close>.
  \<^verbatim>\<open>len(theta) % n_components\<close> and \<^verbatim>\<open>grad_ind % n_components\<close> are integer operations and
  raise \<^verbatim>\<open>ZeroDivisionError\<close> for a zero width; the length check raises a plain
  \<^verbatim>\<open>Exception\<close>. The kernel has no chunked loop: every mode is one whole-array expression.
\<close>

definition act_exp ::
  "real list \<Rightarrow> ndarray \<Rightarrow> int option \<Rightarrow> int option \<Rightarrow> ndarray option \<Rightarrow> params option
     \<Rightarrow> error + real list" where
  "act_exp theta d grad_ind hess_ind d_x derivative_params =
     (if ncols d = 0 then Inl ZeroDivisionError
      else if length theta mod ncols d \<noteq> 0 then Inl PyException
      else
        let n_small_components = length theta div ncols d;
            d_A = map (d_A_row theta (ncols d) n_small_components) (rows d);
            d' = (case d_x of None \<Rightarrow> d | Some dx \<Rightarrow> dx);
            n_components = ncols d';
            r = map (\<lambda>row. exp (- (1 / 2) * sum_list (map (\<lambda>x. x ^ 2) row))) d_A in
        (case
           (case grad_ind of
              None \<Rightarrow> Inr r
            | Some g \<Rightarrow>
                if n_components = 0 then Inl ZeroDivisionError
                else
                  let d_grad_ind = nat (g mod int n_components);
                      d_A_grad_ind = g div int n_components in
                  (case hess_ind of
                     None \<Rightarrow>
                       (case py_index n_small_components d_A_grad_ind of
                          Inl e \<Rightarrow> Inl e
                        | Inr ag \<Rightarrow>
                            (case bmul (map uminus (column d_grad_ind (rows d'))) (column ag d_A) of
                               Inl e \<Rightarrow> Inl e
                             | Inr p \<Rightarrow>
                                 (case bmul p r of
                                    Inl e \<Rightarrow> Inl e
                                  | Inr v \<Rightarrow> assign_col (nrows d) v)))
                   | Some h \<Rightarrow>
                       let d_hess_ind = nat (h mod int n_components);
                           d_A_hess_ind = h div int n_components in
                       (case py_index n_small_components d_A_grad_ind of
                          Inl e \<Rightarrow> Inl e
                        | Inr ag \<Rightarrow>
                            (case py_index n_small_components d_A_hess_ind of
                               Inl e \<Rightarrow> Inl e
                             | Inr ah \<Rightarrow>
                                 let fact0 = map2 (*) (map uminus (column ag d_A)) (column ah d_A);
                                     fact = (if d_A_hess_ind = d_A_grad_ind
                                             then map (\<lambda>x. 1 + x) fact0 else fact0) in
                                 (case bmul (map uminus (column d_grad_ind (rows d')))
                                         (column d_hess_ind (rows d')) of
                                    Inl e \<Rightarrow> Inl e
                                  | Inr p \<Rightarrow>
                                      (case bmul p fact of
                                         Inl e \<Rightarrow> Inl e
                                       | Inr q \<Rightarrow>
                                           (case bmul q r of
                                              Inl e \<Rightarrow> Inl e
                                            | Inr v \<Rightarrow> assign_col (nrows d) v))))))) of
           Inl e \<Rightarrow> Inl e
         | Inr r' \<Rightarrow>
             (case derivative_params of
                None \<Rightarrow> Inr r'
              | Some dp \<Rightarrow> Inl ValueError)))"

subsection \<open>Unchunked reference evaluation\<close>

text \<open>
  The specification describes chunking as a pure memory device: the result must be what a
  single pass of the same row formula over all of \<open>D\<close> gives. The definitions below are that
  single-pass evaluation, written from the specification's description of the modes: the value
  pass over all rows at once, then the gradient factor, then the Hessian factor, with the same
  argument checks. They are the reference the chunked kernels are compared with.
\<close>

definition exp_single_pass :: "real list \<Rightarrow> ndarray \<Rightarrow> int option \<Rightarrow> int option \<Rightarrow> error + real list" where
  "exp_single_pass theta d grad_ind hess_ind =
     (if length theta \<noteq> ncols d then Inl ValueError
      else
        let r = map (\<lambda>row. exp_value_row theta row 0) (rows d) in
        (case (case grad_ind of
                 None \<Rightarrow> Inr r
               | Some g \<Rightarrow>
                   (case py_index (ncols d) g of
                      Inl e \<Rightarrow> Inl e
                    | Inr gc \<Rightarrow> Inr (map2 (exp_factor_row gc) (rows d) r))) of
           Inl e \<Rightarrow> Inl e
         | Inr r1 \<Rightarrow>
             (case hess_ind of
                None \<Rightarrow> Inr r1
              | Some h \<Rightarrow>
                  (case py_index (ncols d) h of
                     Inl e \<Rightarrow> Inl e
                   | Inr hc \<Rightarrow> Inr (map2 (exp_factor_row hc) (rows d) r1)))))"

definition matern52_single_pass ::
  "real list \<Rightarrow> ndarray \<Rightarrow> int option \<Rightarrow> int option \<Rightarrow> error + real list" where
  "matern52_single_pass theta d grad_ind hess_ind =
     (if length theta \<noteq> ncols d then Inl ValueError
      else
        let M52 = map (\<lambda>row. m52_value_row theta row 0) (rows d) in
        (case (case grad_ind of
                 None \<Rightarrow> Inr M52
               | Some g \<Rightarrow>
                   (case py_index (ncols d) g of
                      Inl e \<Rightarrow> Inl e
                    | Inr gc \<Rightarrow> Inr (map2 (m52_grad_row theta gc) (rows d) M52))) of
           Inl e \<Rightarrow> Inl e
         | Inr r1 \<Rightarrow>
             (case hess_ind of
                None \<Rightarrow> Inr r1
              | Some h \<Rightarrow>
                  (case py_index (ncols d) h of
                     Inl e \<Rightarrow> Inl e
                   | Inr hc \<Rightarrow>
                       if grad_ind = None then Inl NameError
                       else Inr (map2 (m52_hess_row theta hc (hess_ind = grad_ind))
                                   (zip (rows d) M52) r1)))))"

definition matern32_single_pass ::
  "real list \<Rightarrow> ndarray \<Rightarrow> int option \<Rightarrow> int option \<Rightarrow> error + real list" where
  "matern32_single_pass theta d grad_ind hess_ind =
     (if length theta \<noteq> ncols d then Inl ValueError
      else
        let M32 = map (\<lambda>row. m32_value_row theta row 0) (rows d) in
        (case (case grad_ind of
                 None \<Rightarrow> Inr M32
               | Some g \<Rightarrow>
                   (case py_index (ncols d) g of
                      Inl e \<Rightarrow> Inl e
                    | Inr gc \<Rightarrow> Inr (map2 (m32_grad_row theta gc) (rows d) M32))) of
           Inl e \<Rightarrow> Inl e
         | Inr r1 \<Rightarrow>
             (case hess_ind of
                None \<Rightarrow> Inr r1
              | Some h \<Rightarrow>
                  (case py_index (ncols d) h of
                     Inl e \<Rightarrow> Inl e
                   | Inr hc \<Rightarrow>
                       Inr (map2 (m32_hess_row theta hc (grad_ind = hess_ind))
                              (zip (rows d) M32) r1)))))"

section \<open>The distance engine: cross_distances and differences\<close>

text \<open>
  Modelled from the spec: \<^verbatim>\<open>check_pairwise_arrays\<close> is imported from scikit-learn and is not
  part of the repository's sources. The specification says of both callers that they fail when
  \<open>X\<close> and \<open>Y\<close> have mismatched column counts; that is the whole of the model (the library's
  further validation of its inputs is not described by the specification and not modelled).
\<close>

definition check_pairwise_arrays :: "ndarray \<Rightarrow> ndarray \<Rightarrow> error + (ndarray \<times> ndarray)" where
  "check_pairwise_arrays X Y = (if ncols X \<noteq> ncols Y then Inl ValueError else Inr (X, Y))"

text \<open>The row difference \<^verbatim>\<open>X[i] - Y[j]\<close>.\<close>

definition row_diff :: "real list \<Rightarrow> real list \<Rightarrow> real list" where
  "row_diff x y = map2 (-) x y"

text \<open>
  One iteration of the self-mode loop \<^verbatim>\<open>for k in range(n_samples - 1)\<close>. The state is
  \<^verbatim>\<open>ll_1\<close>, the index array \<open>ij\<close> (a list of pairs; the source stores them as \<^verbatim>\<open>int32\<close>, which
  holds every index of an array that fits in memory) and the rows of \<open>D\<close>. The two column
  assignments to \<open>ij\<close> and the block assignment to \<open>D\<close> are slice assignments.
\<close>

definition self_step ::
  "real list list \<Rightarrow> nat \<Rightarrow> nat \<Rightarrow> nat \<times> (nat \<times> nat) list \<times> real list list
     \<Rightarrow> nat \<times> (nat \<times> nat) list \<times> real list list" where
  "self_step X n_samples k st =
     (case st of (ll_1, ij, D) \<Rightarrow>
        let ll_0 = ll_1;
            ll_1' = ll_0 + n_samples - k - 1;
            ij1 = assign_slice ll_0 ll_1' (map (\<lambda>p. (k, snd p)) (slice ll_0 ll_1' ij)) ij;
            ij2 = assign_slice ll_0 ll_1'
                    (map2 (\<lambda>p j. (fst p, j)) (slice ll_0 ll_1' ij1) [k + 1..<n_samples]) ij1;
            D' = assign_slice ll_0 ll_1'
                    (map (\<lambda>xj. row_diff (X ! k) xj) (slice (k + 1) n_samples X)) D
        in (ll_1', ij2, D'))"

text \<open>One iteration of the cross-mode loop \<^verbatim>\<open>for k in range(n_nonzero_cross_dist)\<close>.\<close>

definition cross_step ::
  "real list list \<Rightarrow> real list list \<Rightarrow> nat \<Rightarrow> nat \<Rightarrow> (nat \<times> nat) list \<times> real list list
     \<Rightarrow> (nat \<times> nat) list \<times> real list list" where
  "cross_step X Y n_y k st =
     (case st of (ij, D) \<Rightarrow>
        let xk = k div n_y; yk = k mod n_y
        in (ij[k := (xk, yk)], D[k := row_diff (X ! xk) (Y ! yk)]))"

text \<open>\<^verbatim>\<open>cross_distances(X, y=None)\<close>, returning \<open>(D, ij)\<close>.\<close>

definition cross_distances ::
  "ndarray \<Rightarrow> ndarray option \<Rightarrow> error + (ndarray \<times> (nat \<times> nat) list)" where
  "cross_distances X y =
     (let n_samples = nrows X; n_features = ncols X in
      case y of
        None \<Rightarrow>
          let n_nonzero_cross_dist = n_samples * (n_samples - 1) div 2;
              ij = replicate n_nonzero_cross_dist (0, 0);
              D = replicate n_nonzero_cross_dist (replicate n_features 0)
          in (case fold (self_step (rows X) n_samples) [0..<n_samples - 1] (0, ij, D) of
                (ll_1, ij', D') \<Rightarrow> Inr (\<lparr>ncols = n_features, rows = D'\<rparr>, ij'))
      | Some Y \<Rightarrow>
          let n_y = nrows Y; n_features = ncols Y in
          (case check_pairwise_arrays X Y of
             Inl e \<Rightarrow> Inl e
           | Inr (X', Y') \<Rightarrow>
               let n_nonzero_cross_dist = n_samples * n_y;
                   ij = replicate n_nonzero_cross_dist (0, 0);
                   D = replicate n_nonzero_cross_dist (replicate n_features 0)
               in (case fold (cross_step (rows X') (rows Y') n_y) [0..<n_nonzero_cross_dist] (ij, D) of
                     (ij', D') \<Rightarrow> Inr (\<lparr>ncols = n_features, rows = D'\<rparr>, ij'))))"

text \<open>
  \<^verbatim>\<open>differences(X, Y)\<close>: the dense tensor \<^verbatim>\<open>X[:, np.newaxis, :] - Y[np.newaxis, :, :]\<close> reshaped
  to \<open>n \<sqdot> m\<close> rows.
\<close>

definition differences :: "ndarray \<Rightarrow> ndarray \<Rightarrow> error + ndarray" where
  "differences X Y =
     (case check_pairwise_arrays X Y of
        Inl e \<Rightarrow> Inl e
      | Inr (X', Y') \<Rightarrow>
          Inr \<lparr>ncols = ncols X',
               rows = concat (map (\<lambda>x. map (\<lambda>y. row_diff x y) (rows Y')) (rows X'))\<rparr>)"

text \<open>
  The specification's enumeration of the self-mode pairs: the outer index \<open>i\<close> ascending, the
  inner index \<open>j > i\<close> ascending.
\<close>

definition nested_pairs :: "nat \<Rightarrow> (nat \<times> nat) list" where
  "nested_pairs n = concat (map (\<lambda>i. map (Pair i) [i + 1..<n]) [0..<n])"

text \<open>The pairs whose outer index is at least \<open>a\<close>: what the self-mode loop still has to write
  when it reaches \<open>k = a\<close>.\<close>

definition pairs_from :: "nat \<Rightarrow> nat \<Rightarrow> (nat \<times> nat) list" where
  "pairs_from n a = concat (map (\<lambda>i. map (Pair i) [i + 1..<n]) [a..<n - 1])"

text \<open>The row of \<open>D\<close> that belongs to an index pair: \<open>X[i] - X[j]\<close>.\<close>

definition pair_diff :: "real list list \<Rightarrow> nat \<times> nat \<Rightarrow> real list" where
  "pair_diff X p = row_diff (X ! fst p) (X ! snd p)"

section \<open>The Gower distance\<close>

text \<open>
  \<^verbatim>\<open>gower_componentwise_distances\<close> protects every division by a test of the divisor, and what
  those tests achieve depends on how floating-point numbers behave: \<^verbatim>\<open>nan != 0\<close> is true, a
  quotient can be infinite or NaN, and the column statistics are taken after a cast to
  \<^verbatim>\<open>float32\<close>, which can overflow. The function is therefore modelled over an arbitrary
  arithmetic: a type \<open>'v\<close> of values and one operation for every numeric primitive the source
  applies. Nothing is assumed of the operations, so that what is proved for every arithmetic
  holds of IEEE double precision with its NaN and infinities in particular.

  \<^item> \<open>fzero\<close>, \<open>fone\<close>: the values \<^verbatim>\<open>0.0\<close> and \<^verbatim>\<open>1.0\<close> (of \<^verbatim>\<open>np.zeros\<close>, \<^verbatim>\<open>np.zeros_like\<close>,
    \<^verbatim>\<open>np.ones_like\<close>, the literals \<^verbatim>\<open>0.0\<close>, \<^verbatim>\<open>0\<close> and \<^verbatim>\<open>1\<close>, and of a boolean stored in a
    float array);
  \<^item> \<open>fsub\<close>, \<open>fdiv\<close>, \<open>fmul\<close>, \<open>fabs\<close>: \<^verbatim>\<open>-\<close>, \<^verbatim>\<open>np.divide\<close>, \<^verbatim>\<open>*\<close> and \<^verbatim>\<open>np.abs\<close> on one element;
  \<^item> \<open>nanmax\<close>, \<open>nanmin\<close>: \<^verbatim>\<open>np.nanmax\<close> and \<^verbatim>\<open>np.nanmin\<close> of a non-empty column;
  \<^item> \<open>isnan\<close>: \<^verbatim>\<open>np.isnan\<close>; \<open>nonzero\<close>: the test \<^verbatim>\<open>!= 0\<close>; \<open>feq\<close>: the test \<^verbatim>\<open>==\<close>;
    \<open>gt_half\<close>: the test \<^verbatim>\<open>> 0.5\<close>;
  \<^item> \<open>cast32\<close>: \<^verbatim>\<open>astype(np.float32)\<close> on one element; \<open>div32\<close>: the quotient of two
    \<^verbatim>\<open>float32\<close> scalars.
\<close>

record 'v arith =
  fzero :: 'v
  fone :: 'v
  fsub :: "'v \<Rightarrow> 'v \<Rightarrow> 'v"
  fdiv :: "'v \<Rightarrow> 'v \<Rightarrow> 'v"
  fmul :: "'v \<Rightarrow> 'v \<Rightarrow> 'v"
  fabs :: "'v \<Rightarrow> 'v"
  nanmax :: "'v list \<Rightarrow> 'v"
  nanmin :: "'v list \<Rightarrow> 'v"
  isnan :: "'v \<Rightarrow> bool"
  nonzero :: "'v \<Rightarrow> bool"
  feq :: "'v \<Rightarrow> 'v \<Rightarrow> bool"
  gt_half :: "'v \<Rightarrow> bool"
  cast32 :: "'v \<Rightarrow> 'v"
  div32 :: "'v \<Rightarrow> 'v \<Rightarrow> 'v"

text \<open>
  The arithmetic of the real numbers, without rounding, NaN or infinity. Floating-point
  arithmetic agrees with it wherever the operands and every exact result are representable in
  both precisions, as the small dyadic values of the worked examples are (\<open>1\<close>, \<open>2\<close>, \<open>4\<close>,
  \<open>1/2\<close>, \<open>1/4\<close>, \<open>3/2\<close>, ...); it is used for those examples only.
\<close>

definition exact_arith :: "real arith" where
  "exact_arith =
     \<lparr>fzero = 0, fone = 1,
      fsub = (\<lambda>a b. a - b), fdiv = (\<lambda>a b. a / b), fmul = (\<lambda>a b. a * b), fabs = abs,
      nanmax = (\<lambda>xs. fold max xs (hd xs)), nanmin = (\<lambda>xs. fold min xs (hd xs)),
      isnan = (\<lambda>a. False), nonzero = (\<lambda>a. a \<noteq> 0), feq = (\<lambda>a b. a = b),
      gt_half = (\<lambda>a. a > 1 / 2),
      cast32 = (\<lambda>a. a), div32 = (\<lambda>a b. a / b)\<rparr>"

text \<open>
  \<^verbatim>\<open>gower_componentwise_distances\<close> writes into arrays through several names
  (\<^verbatim>\<open>X_norma = X\<close>, \<^verbatim>\<open>Y_norma = Y\<close>, \<^verbatim>\<open>Y = X\<close> or \<^verbatim>\<open>Y = y\<close>), so the arrays that can be
  shared live in an explicit store: a list of arrays addressed by position. The caller's \<open>X\<close>
  and \<open>y\<close> are references into the store, and the function returns the store it leaves behind.
  Arrays that are created and used under one name only stay plain values. The caller's arrays
  are arrays of doubles (\<^verbatim>\<open>X.astype(np.float)\<close> is then a plain copy).
\<close>

type_synonym 'v heap = "'v nd_array list"

definition alloc :: "'v heap \<Rightarrow> 'v nd_array \<Rightarrow> nat \<times> 'v heap" where
  "alloc h a = (length h, h @ [a])"

text \<open>
  The type tag of a column: \<^verbatim>\<open>"float_type"\<close>, \<^verbatim>\<open>"ord_type"\<close>, or the tuple
  \<^verbatim>\<open>("enum_type", L)\<close> of a categorical factor with \<open>L\<close> levels. \<^verbatim>\<open>xtypes\<close> is modelled as
  given (the default \<^verbatim>\<open>None\<close> is outside the model).
\<close>

datatype xtype = FLOAT | ORD | ENUM nat

text \<open>The mask \<^verbatim>\<open>cat_features\<close> of \<^verbatim>\<open>compute_X_cont\<close>.\<close>

definition cat_features_of :: "xtype list \<Rightarrow> bool list" where
  "cat_features_of xtypes = map (\<lambda>xtype. \<not> (xtype = FLOAT \<or> xtype = ORD)) xtypes"

text \<open>
  Indexing the columns of a row with a boolean mask, \<^verbatim>\<open>A[:, mask]\<close> (a copy), and assigning to
  them, \<^verbatim>\<open>A[:, mask] = V\<close> (in place). Numpy raises \<^verbatim>\<open>IndexError\<close> when the mask is not as long
  as the row; the function checks that once, where \<^verbatim>\<open>compute_X_cont\<close> first applies the mask.
\<close>

definition sel :: "bool list \<Rightarrow> 'a list \<Rightarrow> 'a list" where
  "sel msk row = map snd (filter fst (zip msk row))"

fun put_cols :: "bool list \<Rightarrow> 'a list \<Rightarrow> 'a list \<Rightarrow> 'a list" where
  "put_cols (True # ms) (x # xs) (v # vs) = v # put_cols ms xs vs"
| "put_cols (False # ms) (x # xs) vs = x # put_cols ms xs vs"
| "put_cols ms xs vs = xs"

definition count_true :: "bool list \<Rightarrow> nat" where
  "count_true msk = length (filter id msk)"

definition write_cols :: "bool list \<Rightarrow> 'v nd_array \<Rightarrow> 'v list list \<Rightarrow> 'v nd_array" where
  "write_cols msk A V = A\<lparr>rows := map2 (put_cols msk) (rows A) V\<rparr>"

text \<open>
  One pass of the loop \<^verbatim>\<open>for col in range(num_cols)\<close>: the column is cast to \<^verbatim>\<open>float32\<close>, its
  \<^verbatim>\<open>np.nanmax\<close> and \<^verbatim>\<open>np.nanmin\<close> are taken (an empty column raises \<^verbatim>\<open>ValueError\<close>, the
  reduction of a zero-size array), a NaN statistic is replaced by \<^verbatim>\<open>0.0\<close>, and the pass
  returns the pair \<^verbatim>\<open>(num_max[col], num_ranges[col])\<close>, the range being
  \<^verbatim>\<open>(1 - min / max) if (max != 0) else 0.0\<close>.
\<close>

definition col_stats :: "'v arith \<Rightarrow> 'v list \<Rightarrow> error + ('v \<times> 'v)" where
  "col_stats A col =
     (let col_array = map (cast32 A) col
      in if col_array = [] then Inl ValueError
         else
           let max0 = nanmax A col_array;
               min0 = nanmin A col_array;
               mx = (if isnan A max0 then fzero A else max0);
               mn = (if isnan A min0 then fzero A else min0)
           in Inr (mx, if nonzero A mx then fsub A (fone A) (div32 A mn mx) else fzero A))"

text \<open>
  \<^verbatim>\<open>np.divide(a, b, out=np.zeros_like(a), where=b != 0)\<close> on one row: the quotient where the
  divisor tests as non-zero, and the \<^verbatim>\<open>0.0\<close> of \<^verbatim>\<open>out\<close> where it does not.
\<close>

definition divide_where :: "'v arith \<Rightarrow> 'v list \<Rightarrow> 'v list \<Rightarrow> 'v list" where
  "divide_where A a b = map2 (\<lambda>x d. if nonzero A d then fdiv A x d else fzero A) a b"

text \<open>
  The first self-mode loop, over \<open>ij\<close> and \<open>D_num\<close>. The \<^verbatim>\<open>try\<close> around \<^verbatim>\<open>np.divide\<close> never
  catches anything here: the operands have the same number of columns by construction.
\<close>

definition gower_num_step ::
  "'v arith \<Rightarrow> 'v list list \<Rightarrow> 'v list list \<Rightarrow> 'v list \<Rightarrow> nat \<Rightarrow> nat
     \<Rightarrow> nat \<times> (nat \<times> nat) list \<times> 'v list list \<Rightarrow> nat \<times> (nat \<times> nat) list \<times> 'v list list" where
  "gower_num_step A X_num Y_num num_ranges n_samples k st =
     (case st of (ll_1, ij, D_num) \<Rightarrow>
        let ll_0 = ll_1;
            ll_1' = ll_0 + n_samples - k - 1;
            ij1 = assign_slice ll_0 ll_1' (map (\<lambda>p. (k, snd p)) (slice ll_0 ll_1' ij)) ij;
            ij2 = assign_slice ll_0 ll_1'
                    (map2 (\<lambda>p j. (fst p, j)) (slice ll_0 ll_1' ij1) [k + 1..<n_samples]) ij1;
            abs_delta = map (\<lambda>yj. map (fabs A) (map2 (fsub A) (X_num ! k) yj))
                          (slice (k + 1) n_samples Y_num);
            D_num' = assign_slice ll_0 ll_1'
                       (map (\<lambda>a. divide_where A a num_ranges) abs_delta) D_num
        in (ll_1', ij2, D_num'))"

text \<open>
  The second self-mode loop, over \<open>D_cat\<close>: \<^verbatim>\<open>0.0\<close> where the levels test as equal, \<^verbatim>\<open>1.0\<close>
  otherwise.
\<close>

definition gower_cat_step ::
  "'v arith \<Rightarrow> 'v list list \<Rightarrow> 'v list list \<Rightarrow> nat \<Rightarrow> nat \<Rightarrow> nat \<times> 'v list list
     \<Rightarrow> nat \<times> 'v list list" where
  "gower_cat_step A X_cat Y_cat n_samples k st =
     (case st of (ll_1, D_cat) \<Rightarrow>
        let ll_0 = ll_1;
            ll_1' = ll_0 + n_samples - k - 1
        in (ll_1',
            assign_slice ll_0 ll_1'
              (map (\<lambda>yj. map2 (\<lambda>a b. if feq A a b then fzero A else fone A) (X_cat ! k) yj)
                 (slice (k + 1) n_samples Y_cat)) D_cat))"

text \<open>One row of the cross-mode result, from one row of the dense difference tensor.\<close>

definition gower_cross_row :: "'v arith \<Rightarrow> bool list \<Rightarrow> 'v list \<Rightarrow> 'v list \<Rightarrow> 'v list" where
  "gower_cross_row A cat_features num_ranges row =
     (let r1 = map (fabs A) row;
          r2 = put_cols cat_features r1
                 (map (\<lambda>v. if gt_half A v then fone A else fzero A) (sel cat_features r1));
          not_cat = map Not cat_features
      in put_cols not_cat r2 (divide_where A (sel not_cat r2) num_ranges))"

text \<open>The two shapes of result: \<open>(D, ij, X_cont)\<close> in self mode, \<open>D\<close> alone in cross mode.\<close>

datatype 'v gower_result =
  Self "'v nd_array" "(nat \<times> nat) list" "'v nd_array"
  | Cross "'v nd_array"

fun D_of :: "'v gower_result \<Rightarrow> 'v nd_array" where
  "D_of (Self D ij X_cont) = D"
| "D_of (Cross D) = D"

text \<open>
  The self-mode branch: the two loops over the pairs and the assembly of \<open>D\<close> from \<open>D_cat\<close> and
  \<open>D_num\<close>. \<^verbatim>\<open>np.concatenate((D_cat, D_num), axis=1) * 0\<close> is an array of the full width (its
  entries are products with \<open>0\<close>, not necessarily \<open>0\<close>), into which the two column groups are
  then written.
\<close>

definition gower_self_D ::
  "'v arith \<Rightarrow> bool list \<Rightarrow> 'v list list \<Rightarrow> 'v list list \<Rightarrow> 'v list list \<Rightarrow> 'v list list
     \<Rightarrow> 'v list \<Rightarrow> 'v nd_array \<times> (nat \<times> nat) list" where
  "gower_self_D A cat_features X_cat X_num Y_cat Y_num num_ranges =
     (let not_cat = map Not cat_features;
          n_samples = length X_num;
          n_features = count_true not_cat;
          n_nonzero_cross_dist = n_samples * (n_samples - 1) div 2
      in case fold (gower_num_step A X_num Y_num num_ranges n_samples) [0..<n_samples - 1]
                (0, replicate n_nonzero_cross_dist (0, 0),
                 replicate n_nonzero_cross_dist (replicate n_features (fzero A))) of
           (ll_1, ij, D_num) \<Rightarrow>
             (case fold (gower_cat_step A X_cat Y_cat n_samples) [0..<n_samples - 1]
                     (0, replicate n_nonzero_cross_dist
                           (replicate (count_true cat_features) (fzero A))) of
                (ll_1', D_cat) \<Rightarrow>
                  let width = count_true cat_features + n_features;
                      D = map2 (\<lambda>dc dn.
                              put_cols cat_features
                                (put_cols not_cat (map (\<lambda>v. fmul A v (fzero A)) (dc @ dn)) dn) dc)
                            D_cat D_num
                  in (\<lparr>ncols = width, rows = D\<rparr>, ij)))"

text \<open>
  The cross-mode branch: the dense difference tensor of the two normalised arrays, reshaped to
  one row per pair, then \<^verbatim>\<open>gower_cross_row\<close> on every row.
\<close>

definition gower_cross_D ::
  "'v arith \<Rightarrow> bool list \<Rightarrow> 'v list \<Rightarrow> 'v nd_array \<Rightarrow> 'v nd_array \<Rightarrow> 'v nd_array" where
  "gower_cross_D A cat_features num_ranges X_norma Y_norma =
     \<lparr>ncols = ncols X_norma,
      rows = map (gower_cross_row A cat_features num_ranges)
               (concat (map (\<lambda>x. map (\<lambda>y. map2 (fsub A) x y) (rows Y_norma)) (rows X_norma)))\<rparr>"

text \<open>
  \<^verbatim>\<open>gower_componentwise_distances(X, y=None, xtypes)\<close> on the store \<open>h\<close>, in the arithmetic
  \<open>A\<close>. \<open>X\<close> is rebound to the fresh copy \<^verbatim>\<open>X.astype(np.float)\<close> at once; \<open>Y\<close> is that copy in
  self mode and the caller's own \<open>y\<close> in cross mode. The two assignments through \<^verbatim>\<open>X_norma\<close>
  and \<^verbatim>\<open>Y_norma\<close> are the writes to the store.
\<close>

definition gower_componentwise_distances ::
  "'v arith \<Rightarrow> 'v heap \<Rightarrow> nat \<Rightarrow> nat option \<Rightarrow> xtype list
     \<Rightarrow> error + ('v gower_result \<times> 'v heap)" where
  "gower_componentwise_distances A h X_ref y xtypes =
     (case alloc h (h ! X_ref) of (X, h1) \<Rightarrow>
      let cat_features = cat_features_of xtypes;
          not_cat = map Not cat_features
      in if length cat_features \<noteq> ncols (h1 ! X) then Inl IndexError
      else
        let X_cont = \<lparr>ncols = count_true not_cat, rows = map (sel not_cat) (rows (h1 ! X))\<rparr>;
            Y = (case y of None \<Rightarrow> X | Some y_ref \<Rightarrow> y_ref)
        in if ncols (h1 ! X) \<noteq> ncols (h1 ! Y) then Inl TypeError
        else
          let x_n_rows = nrows (h1 ! X);
              Z = rows (h1 ! X) @ rows (h1 ! Y);
              Z_num = map (sel not_cat) Z;
              Y_num0 = map (sel not_cat) (rows (h1 ! Y));
              num_cols = count_true not_cat
          in (case mapM (\<lambda>col. col_stats A (column col Y_num0)) [0..<num_cols] of
                Inl e \<Rightarrow> Inl e
              | Inr stats \<Rightarrow>
                  let num_max = map fst stats;
                      num_ranges = map snd stats;
                      Z_num' = map (\<lambda>z. divide_where A z num_max) Z_num;
                      Z_cat = map (sel cat_features) Z;
                      X_cat = take x_n_rows Z_cat;
                      X_num = take x_n_rows Z_num';
                      Y_cat = drop x_n_rows Z_cat;
                      Y_num = drop x_n_rows Z_num';
                      h2 = h1[X := write_cols not_cat (h1 ! X) X_num];
                      h3 = h2[Y := write_cols not_cat (h2 ! Y) Y_num]
                  in (case y of
                        None \<Rightarrow>
                          (case gower_self_D A cat_features X_cat X_num Y_cat Y_num num_ranges of
                             (D, ij) \<Rightarrow> Inr (Self D ij X_cont, h3))
                      | Some y_ref \<Rightarrow>
                          Inr (Cross (gower_cross_D A cat_features num_ranges (h3 ! X) (h3 ! Y)),
                               h3))))"




section \<open>Verification: the value-mode loops of componentwise_distance\<close>

declare cd_loop.simps [simp del] pls_loop.simps [simp del]

lemma nrows_assign [simp]: "length (assign_slice lo hi vs xs) = length xs"
  by (simp add: assign_slice_def)

lemma nb_limit_pos [simp]: "0 < nb_limit"
  by (simp add: nb_limit_def)

lemma exit_counter: "i * nb_limit \<le> n \<Longrightarrow> max (Suc i) (n div nb_limit + 1) = n div nb_limit + 1"
  by (simp add: less_eq_div_iff_mult_less_eq max_def)

lemma exit_counter': "\<not> i * nb_limit \<le> n \<Longrightarrow> max i (n div nb_limit + 1) = i"
  by (metis Suc_eq_plus1 div_less_iff_less_mult less_eq_Suc_le max.absorb1 nb_limit_pos not_le)

lemma cd_loop_ok:
  "ncols D = ncols Dc \<or> ncols D = 1 \<Longrightarrow>
   \<exists>Dc'. cd_loop corr D i Dc = Inr (max i (nrows Dc div nb_limit + 1), Dc') \<and>
         nrows Dc' = nrows Dc \<and> ncols Dc' = ncols Dc"
proof (induction corr D i Dc rule: cd_loop.induct)
  case (1 corr D i Dc)
  show ?case
  proof (cases "i * nb_limit > nrows Dc")
    case True
    then show ?thesis
      using exit_counter'[of i "nrows Dc"] by (simp add: cd_loop.simps[of corr D i Dc])
  next
    case False
    have "\<exists>block. broadcast_cols (ncols Dc) (ncols D)
        (cd_block corr (slice (i * nb_limit) ((i + 1) * nb_limit) (rows D))) = Inr block"
      using 1(2) by (auto simp: broadcast_cols_def)
    then obtain block where b: "broadcast_cols (ncols Dc) (ncols D)
        (cd_block corr (slice (i * nb_limit) ((i + 1) * nb_limit) (rows D))) = Inr block"
      by blast
    let ?Dc = "Dc\<lparr>rows := assign_slice (i * nb_limit) ((i + 1) * nb_limit) block (rows Dc)\<rparr>"
    have "\<exists>Dc'. cd_loop corr D (i + 1) ?Dc = Inr (max (i + 1) (nrows ?Dc div nb_limit + 1), Dc') \<and>
         nrows Dc' = nrows ?Dc \<and> ncols Dc' = ncols ?Dc"
      using 1(1)[OF False b] 1(2) by simp
    then show ?thesis
      using False b exit_counter[of i "nrows Dc"]
      by (simp add: cd_loop.simps[of corr D i Dc] nrows_def)
  qed
qed

lemma cd_loop_total:
  "cd_loop corr D i Dc = Inl ValueError \<or>
   (\<exists>Dc'. cd_loop corr D i Dc = Inr (max i (nrows Dc div nb_limit + 1), Dc') \<and>
         nrows Dc' = nrows Dc \<and> ncols Dc' = ncols Dc)"
proof (cases "ncols D = ncols Dc \<or> ncols D = 1")
  case True
  then show ?thesis using cd_loop_ok by blast
next
  case False
  show ?thesis
  proof (cases "i * nb_limit > nrows Dc")
    case True
    then show ?thesis
      using exit_counter'[of i "nrows Dc"] by (simp add: cd_loop.simps[of corr D i Dc])
  next
    case F: False
    then show ?thesis using False
      by (simp add: cd_loop.simps[of corr D i Dc] broadcast_cols_def)
  qed
qed

lemma pls_loop_ok:
  "ncols D = nrows coeff_pls \<Longrightarrow> ncols coeff_pls = ncols Dc \<or> ncols coeff_pls = 1 \<Longrightarrow>
   \<exists>Dc'. pls_loop corr D coeff_pls i Dc = Inr (max i (nrows Dc div nb_limit + 1), Dc') \<and>
         nrows Dc' = nrows Dc \<and> ncols Dc' = ncols Dc"
proof (induction corr D coeff_pls i Dc rule: pls_loop.induct)
  case (1 corr D coeff_pls i Dc)
  show ?case
  proof (cases "i * nb_limit > nrows Dc")
    case True
    then show ?thesis
      using exit_counter'[of i "nrows Dc"] by (simp add: pls_loop.simps[of corr D coeff_pls i Dc])
  next
    case False
    have "\<exists>pr. pls_block corr (ncols D)
        (slice (i * nb_limit) ((i + 1) * nb_limit) (rows D)) coeff_pls = Inr pr"
      using 1(2) by (auto simp: pls_block_def np_dot_def nrows_def map_ndarray_def)
    then obtain pr where p: "pls_block corr (ncols D)
        (slice (i * nb_limit) ((i + 1) * nb_limit) (rows D)) coeff_pls = Inr pr"
      by blast
    have "\<exists>block. broadcast_cols (ncols Dc) (ncols coeff_pls) pr = Inr block"
      using 1(3) by (auto simp: broadcast_cols_def)
    then obtain block where b: "broadcast_cols (ncols Dc) (ncols coeff_pls) pr = Inr block"
      by blast
    let ?Dc = "Dc\<lparr>rows := assign_slice (i * nb_limit) ((i + 1) * nb_limit) block (rows Dc)\<rparr>"
    have "\<exists>Dc'. pls_loop corr D coeff_pls (i + 1) ?Dc = Inr (max (i + 1) (nrows ?Dc div nb_limit + 1), Dc') \<and>
         nrows Dc' = nrows ?Dc \<and> ncols Dc' = ncols ?Dc"
      using 1(1)[OF False p b] 1(2,3) by simp
    then show ?thesis
      using False p b exit_counter[of i "nrows Dc"]
      by (simp add: pls_loop.simps[of corr D coeff_pls i Dc] nrows_def)
  qed
qed

lemma pls_loop_total:
  "pls_loop corr D coeff_pls i Dc = Inl ValueError \<or>
   (\<exists>Dc'. pls_loop corr D coeff_pls i Dc = Inr (max i (nrows Dc div nb_limit + 1), Dc') \<and>
         nrows Dc' = nrows Dc \<and> ncols Dc' = ncols Dc)"
proof (cases "ncols D = nrows coeff_pls \<and> (ncols coeff_pls = ncols Dc \<or> ncols coeff_pls = 1)")
  case True
  then show ?thesis using pls_loop_ok by blast
next
  case False
  show ?thesis
  proof (cases "i * nb_limit > nrows Dc")
    case True
    then show ?thesis
      using exit_counter'[of i "nrows Dc"] by (simp add: pls_loop.simps[of corr D coeff_pls i Dc])
  next
    case F: False
    then show ?thesis using False
      by (auto simp add: pls_loop.simps[of corr D coeff_pls i Dc] broadcast_cols_def pls_block_def np_dot_def nrows_def map_ndarray_def)
  qed
qed

text \<open>
  Claim C10, as amended. In value mode (\<^verbatim>\<open>return_derivative=False\<close>) the \<^verbatim>\<open>while True\<close> loops
  of \<^verbatim>\<open>componentwise_distance\<close> and \<^verbatim>\<open>componentwise_distance_PLS\<close> always leave, for every
  \<open>D\<close> and every kernel name: the call either raises numpy's shape \<^verbatim>\<open>ValueError\<close> or returns,
  after exactly \<open>rows div 10^4 + 1\<close> iterations, a \<open>D_corr\<close> with as many rows as \<open>D\<close>; and it
  returns whenever \<open>D\<close> has \<open>dim\<close> columns (for the PLS variant: whenever \<open>coeff_pls\<close> has as
  many rows as \<open>D\<close> has columns, and \<open>n_comp\<close> columns). As the claim is written (a \<open>D_corr\<close>
  for every \<open>D\<close>) it fails: the first slice assignment checks the widths even when \<open>D\<close> has no
  rows, so a \<open>D\<close> of shape \<open>(0, 2)\<close> with \<open>dim = 3\<close> raises.
\<close>

theorem value_mode_loops_terminate:
  "(componentwise_distance D corr dim' theta False = Inl ValueError \<or>
     (\<exists>Dc. cd_loop corr D 0 (zeros (nrows D) dim') = Inr (nrows D div nb_limit + 1, Dc) \<and>
        componentwise_distance D corr dim' theta False = Inr Dc \<and> nrows Dc = nrows D)) \<and>
   (ncols D = dim' \<longrightarrow>
     (\<exists>Dc. cd_loop corr D 0 (zeros (nrows D) dim') = Inr (nrows D div nb_limit + 1, Dc) \<and>
        componentwise_distance D corr dim' theta False = Inr Dc \<and> nrows Dc = nrows D)) \<and>
   (componentwise_distance_PLS D corr n_comp coeff_pls theta False = Inl ValueError \<or>
     (\<exists>Dc. pls_loop corr D coeff_pls 0 (zeros (nrows D) n_comp) =
             Inr (nrows D div nb_limit + 1, Dc) \<and>
        componentwise_distance_PLS D corr n_comp coeff_pls theta False = Inr Dc \<and>
        nrows Dc = nrows D)) \<and>
   (nrows coeff_pls = ncols D \<and> ncols coeff_pls = n_comp \<longrightarrow>
     (\<exists>Dc. pls_loop corr D coeff_pls 0 (zeros (nrows D) n_comp) =
             Inr (nrows D div nb_limit + 1, Dc) \<and>
        componentwise_distance_PLS D corr n_comp coeff_pls theta False = Inr Dc \<and>
        nrows Dc = nrows D))"
proof -
  have z: "nrows (zeros n m) = n" "ncols (zeros n m) = m" for n m
    by (simp_all add: zeros_def nrows_def)
  have a: "componentwise_distance D corr dim' theta False = Inl ValueError \<or>
     (\<exists>Dc. cd_loop corr D 0 (zeros (nrows D) dim') = Inr (nrows D div nb_limit + 1, Dc) \<and>
        componentwise_distance D corr dim' theta False = Inr Dc \<and> nrows Dc = nrows D)"
    using cd_loop_total[of corr D 0 "zeros (nrows D) dim'"]
    by (auto simp: componentwise_distance_def z)
  have b: "\<exists>Dc. cd_loop corr D 0 (zeros (nrows D) dim') = Inr (nrows D div nb_limit + 1, Dc) \<and>
        componentwise_distance D corr dim' theta False = Inr Dc \<and> nrows Dc = nrows D"
    if "ncols D = dim'"
    using cd_loop_ok[of D "zeros (nrows D) dim'" corr 0] that
    by (auto simp: componentwise_distance_def z)
  have c: "componentwise_distance_PLS D corr n_comp coeff_pls theta False = Inl ValueError \<or>
     (\<exists>Dc. pls_loop corr D coeff_pls 0 (zeros (nrows D) n_comp) =
             Inr (nrows D div nb_limit + 1, Dc) \<and>
        componentwise_distance_PLS D corr n_comp coeff_pls theta False = Inr Dc \<and>
        nrows Dc = nrows D)"
    using pls_loop_total[of corr D coeff_pls 0 "zeros (nrows D) n_comp"]
    by (auto simp: componentwise_distance_PLS_def z)
  have d: "\<exists>Dc. pls_loop corr D coeff_pls 0 (zeros (nrows D) n_comp) =
             Inr (nrows D div nb_limit + 1, Dc) \<and>
        componentwise_distance_PLS D corr n_comp coeff_pls theta False = Inr Dc \<and>
        nrows Dc = nrows D"
    if "nrows coeff_pls = ncols D" "ncols coeff_pls = n_comp"
    using pls_loop_ok[of D coeff_pls "zeros (nrows D) n_comp" corr 0] that
    by (auto simp: componentwise_distance_PLS_def z)
  from a b c d show ?thesis by blast
qed

lemma cd_eval: "componentwise_distance \<lparr>ncols = 2, rows = [[- 3, 4]]\<rparr> ''abs_exp'' 2 None False
     = Inr \<lparr>ncols = 2, rows = [[3, 4]]\<rparr>"
  by (simp add: componentwise_distance_def cd_loop.simps[of _ _ 0] cd_loop.simps[of _ _ "Suc 0"]
     zeros_def nrows_def nb_limit_def broadcast_cols_def cd_block_def slice_def assign_slice_def)

lemma pls_eval: "componentwise_distance_PLS \<lparr>ncols = 2, rows = [[- 3, 4]]\<rparr> ''squar_exp'' 1
        \<lparr>ncols = 1, rows = [[1], [- 2]]\<rparr> None False
     = Inr \<lparr>ncols = 1, rows = [[73]]\<rparr>"
  by (simp add: componentwise_distance_PLS_def pls_loop.simps[of _ _ _ 0] pls_loop.simps[of _ _ _ "Suc 0"]
     zeros_def nrows_def nb_limit_def broadcast_cols_def pls_block_def slice_def assign_slice_def
     np_dot_def map_ndarray_def dot_row_def)

theorem value_mode_loops_terminate_witness:
  "ncols \<lparr>ncols = 2, rows = [[- 3, 4]]\<rparr> = 2 \<and>
   nrows \<lparr>ncols = 1, rows = [[1], [- 2]]\<rparr> = ncols \<lparr>ncols = 2, rows = [[- 3, 4]]\<rparr> \<and>
   ncols \<lparr>ncols = 1, rows = [[1], [- 2]]\<rparr> = 1 \<and>
   cd_loop ''abs_exp'' \<lparr>ncols = 2, rows = [[- 3, 4]]\<rparr> 0 (zeros 1 2)
     = Inr (1, \<lparr>ncols = 2, rows = [[3, 4]]\<rparr>) \<and>
   componentwise_distance \<lparr>ncols = 2, rows = [[- 3, 4]]\<rparr> ''abs_exp'' 2 None False
     = Inr \<lparr>ncols = 2, rows = [[3, 4]]\<rparr> \<and>
   pls_loop ''squar_exp'' \<lparr>ncols = 2, rows = [[- 3, 4]]\<rparr> \<lparr>ncols = 1, rows = [[1], [- 2]]\<rparr> 0
       (zeros 1 1) = Inr (1, \<lparr>ncols = 1, rows = [[73]]\<rparr>) \<and>
   componentwise_distance_PLS \<lparr>ncols = 2, rows = [[- 3, 4]]\<rparr> ''squar_exp'' 1
        \<lparr>ncols = 1, rows = [[1], [- 2]]\<rparr> None False
     = Inr \<lparr>ncols = 1, rows = [[73]]\<rparr>"
  using value_mode_loops_terminate[of "\<lparr>ncols = 2, rows = [[- 3, 4]]\<rparr>" "''abs_exp''" 2 None
      1 "\<lparr>ncols = 1, rows = [[1], [- 2]]\<rparr>"]
     value_mode_loops_terminate[of "\<lparr>ncols = 2, rows = [[- 3, 4]]\<rparr>" "''squar_exp''" 2 None
      1 "\<lparr>ncols = 1, rows = [[1], [- 2]]\<rparr>"] cd_eval pls_eval
  by (auto simp: nrows_def nb_limit_def)

theorem value_mode_loops_terminate_counterexample:
  "componentwise_distance \<lparr>ncols = 2, rows = []\<rparr> ''abs_exp'' 3 None False = Inl ValueError \<and>
   componentwise_distance_PLS \<lparr>ncols = 2, rows = []\<rparr> ''abs_exp'' 1
      \<lparr>ncols = 1, rows = [[1], [1], [1]]\<rparr> None False = Inl ValueError"
  by (simp add: componentwise_distance_def componentwise_distance_PLS_def cd_loop.simps[of _ _ 0]
      pls_loop.simps[of _ _ _ 0] zeros_def nrows_def broadcast_cols_def pls_block_def np_dot_def
      map_ndarray_def)

section \<open>Verification: chunked evaluation of the kernels\<close>

declare while_chunks.simps [simp del]

lemma slice_assign_append:
  assumes len: "length vs = min hi (length xs) - min lo (length xs)" and le: "lo \<le> hi"
  shows "assign_slice lo hi vs xs = take lo xs @ vs @ drop hi xs"
proof (rule nth_equalityI)
  show "length (assign_slice lo hi vs xs) = length (take lo xs @ vs @ drop hi xs)"
    using len le by (simp add: assign_slice_def min_def split: if_splits)
next
  fix p assume "p < length (assign_slice lo hi vs xs)"
  then have p: "p < length xs" by (simp add: assign_slice_def)
  have l: "assign_slice lo hi vs xs ! p =
     (if lo \<le> p \<and> p < hi \<and> p - lo < length vs then vs ! (p - lo) else xs ! p)"
    using p by (simp add: assign_slice_def)
  consider "p < lo" | "lo \<le> p" "p < hi" | "hi \<le> p" by linarith
  then show "assign_slice lo hi vs xs ! p = (take lo xs @ vs @ drop hi xs) ! p"
  proof cases
    case 1
    then show ?thesis using p l by (simp add: nth_append)
  next
    case 2
    then have "p - lo < length vs" using p len by (simp add: min_def split: if_splits)
    then show ?thesis using 2 p l by (simp add: nth_append min_def)
  next
    case 3
    then have a: "length (take lo xs) = lo" "length vs = hi - lo"
      using p len le by (simp_all add: min_def)
    have "(take lo xs @ vs @ drop hi xs) ! p = (vs @ drop hi xs) ! (p - lo)"
      using 3 le a(1) by (subst nth_append) simp
    also have "\<dots> = drop hi xs ! (p - lo - (hi - lo))"
    proof -
      have "\<not> p - lo < length vs" using 3 le a(2) by arith
      then show ?thesis by (simp add: nth_append a(2))
    qed
    also have "p - lo - (hi - lo) = p - hi" using 3 le by simp
    finally have "(take lo xs @ vs @ drop hi xs) ! p = drop hi xs ! (p - hi)" .
    also have "\<dots> = xs ! p" using 3 p by simp
    finally show ?thesis using 3 l by auto
  qed
qed

lemma while_chunks_inv:
  "length r = length d \<Longrightarrow>
   while_chunks body d i r =
     take (i * nb_limit) r @ map2 body (drop (i * nb_limit) d) (drop (i * nb_limit) r)"
proof (induction body d i r rule: while_chunks.induct)
  case (1 body d i r)
  let ?lo = "i * nb_limit" and ?hi = "(i + 1) * nb_limit"
  show ?case
  proof (cases "?lo \<le> length d")
    case False
    then show ?thesis using 1(2) by (simp add: while_chunks.simps[of body d i r])
  next
    case True
    let ?vs = "map2 body (slice ?lo ?hi d) (slice ?lo ?hi r)"
    let ?r = "assign_slice ?lo ?hi ?vs r"
    have len: "length ?r = length d" using 1(2) by simp
    have r: "?r = take ?lo r @ ?vs @ drop ?hi r"
      using 1(2) by (intro slice_assign_append) (auto simp: slice_def min_def)
    have step: "while_chunks body d i r = while_chunks body d (i + 1) ?r"
      using True by (subst while_chunks.simps) simp
    have ih: "while_chunks body d (i + 1) ?r =
        take ?hi ?r @ map2 body (drop ?hi d) (drop ?hi ?r)"
      using 1(1)[OF True len] .
    have t: "take ?hi ?r = take ?lo r @ ?vs"
      unfolding r using 1(2) True by (auto simp: slice_def min_def)
    have dr: "drop ?hi ?r = drop ?hi r"
      unfolding r using 1(2) True by (auto simp: slice_def min_def)
    have split: "map2 body (drop ?lo d) (drop ?lo r) = ?vs @ map2 body (drop ?hi d) (drop ?hi r)"
    proof -
      have dd: "drop ?hi xs = drop nb_limit (drop ?lo xs)" for xs :: "'b list"
        by (simp add: add.commute)
      have "drop ?lo d = take nb_limit (drop ?lo d) @ drop ?hi d"
        unfolding dd by (rule append_take_drop_id[symmetric])
      moreover have "drop ?lo r = take nb_limit (drop ?lo r) @ drop ?hi r"
        unfolding dd by (rule append_take_drop_id[symmetric])
      moreover have "length (take nb_limit (drop ?lo d)) = length (take nb_limit (drop ?lo r))"
        using 1(2) by simp
      ultimately have "zip (drop ?lo d) (drop ?lo r) =
         zip (take nb_limit (drop ?lo d)) (take nb_limit (drop ?lo r)) @ zip (drop ?hi d) (drop ?hi r)"
        by (metis zip_append)
      then show ?thesis by (simp add: slice_def)
    qed
    show ?thesis by (simp only: step ih t dr split append_assoc)
  qed
qed

lemma while_chunks_map2:
  "length r = length d \<Longrightarrow> while_chunks body d 0 r = map2 body d r"
  using while_chunks_inv[of r d body 0] by simp

lemma value_pass:
  "while_chunks body d 0 (replicate (length d) 0) = map (\<lambda>row. body row 0) d"
proof -
  have "while_chunks body d 0 (replicate (length d) 0) = map2 body d (replicate (length d) 0)"
    by (rule while_chunks_map2) simp
  also have "\<dots> = map (\<lambda>row. body row 0) d"
    by (induction d) auto
  finally show ?thesis .
qed

lemma later_pass:
  "length r = length d \<Longrightarrow> while_chunks body d 0 r = map2 body d r"
  by (rule while_chunks_map2)

lemma exp_loops_single_pass: "exp_loops theta d g h = exp_single_pass theta d g h"
  by (auto simp: exp_loops_def exp_single_pass_def Let_def nrows_def value_pass later_pass
      split: option.splits sum.splits)

lemma matern52_chunks: "matern52 theta d g h = matern52_single_pass theta d g h"
  by (auto simp: matern52_def matern52_single_pass_def Let_def nrows_def value_pass later_pass
      split: option.splits sum.splits)

lemma matern32_chunks: "matern32 theta d g h = matern32_single_pass theta d g h"
  by (auto simp: matern32_def matern32_single_pass_def Let_def nrows_def value_pass later_pass
      split: option.splits sum.splits)

text \<open>
  Claim C3. For every kernel, every \<open>theta\<close> and every \<open>D\<close>, in value, gradient and Hessian
  mode, the chunked evaluation with \<open>nb_limit = 10^4\<close> returns exactly what the unchunked
  single pass over all rows returns (the same values and, for a bad argument, the same error).
  \<^verbatim>\<open>act_exp\<close> has no chunked loop in the source: its value is the whole-array formula itself.
\<close>

theorem chunking_not_observable:
  "abs_exp theta d grad_ind hess_ind = exp_single_pass theta d grad_ind hess_ind \<and>
   squar_exp theta d grad_ind hess_ind None None =
     (case exp_single_pass theta d grad_ind hess_ind of Inl e \<Rightarrow> Inl e | Inr r \<Rightarrow> Inr (R r)) \<and>
   matern52 theta d grad_ind hess_ind = matern52_single_pass theta d grad_ind hess_ind \<and>
   matern32 theta d grad_ind hess_ind = matern32_single_pass theta d grad_ind hess_ind \<and>
   act_exp theta d None None None None =
     (if ncols d = 0 then Inl ZeroDivisionError
      else if length theta mod ncols d \<noteq> 0 then Inl PyException
      else Inr (map (\<lambda>row. exp (- (1 / 2) *
                  sum_list (map (\<lambda>x. x ^ 2) (d_A_row theta (ncols d) (length theta div ncols d) row))))
                (rows d)))"
proof -
  have "abs_exp theta d grad_ind hess_ind = exp_single_pass theta d grad_ind hess_ind"
    by (simp add: abs_exp_def exp_loops_single_pass)
  moreover have "squar_exp theta d grad_ind hess_ind None None =
     (case exp_single_pass theta d grad_ind hess_ind of Inl e \<Rightarrow> Inl e | Inr r \<Rightarrow> Inr (R r))"
    by (simp add: squar_exp_def exp_loops_single_pass split: sum.splits)
  moreover have "act_exp theta d None None None None =
     (if ncols d = 0 then Inl ZeroDivisionError
      else if length theta mod ncols d \<noteq> 0 then Inl PyException
      else Inr (map (\<lambda>row. exp (- (1 / 2) *
                  sum_list (map (\<lambda>x. x ^ 2) (d_A_row theta (ncols d) (length theta div ncols d) row))))
                (rows d)))"
    by (simp add: act_exp_def Let_def)
  ultimately show ?thesis
    using matern52_chunks[of theta d grad_ind hess_ind] matern32_chunks[of theta d grad_ind hess_ind]
    by simp
qed

theorem chunking_not_observable_witness:
  "abs_exp [1] \<lparr>ncols = 1, rows = [[2], [3]]\<rparr> (Some 0) None
     = Inr [- 2 * exp (- 2), - 3 * exp (- 3)] \<and>
   matern32 [1] \<lparr>ncols = 1, rows = [[0], [1]]\<rparr> None None
     = Inr [1, (1 + sqrt 3) * exp (- sqrt 3)]"
  using chunking_not_observable[of "[1]" "\<lparr>ncols = 1, rows = [[2], [3]]\<rparr>" "Some 0" None]
    chunking_not_observable[of "[1]" "\<lparr>ncols = 1, rows = [[0], [1]]\<rparr>" None None]
  by (simp add: exp_single_pass_def matern32_single_pass_def py_index_def exp_value_row_def
      exp_factor_row_def theta_dot_def m32_value_row_def)

section \<open>Verification: errors of the spatial-derivative requests\<close>

lemma act_exp_derivative_params:
  "act_exp theta d g h d_x (Some dp) =
     (case act_exp theta d g h d_x None of Inl e \<Rightarrow> Inl e | Inr r \<Rightarrow> Inl ValueError)"
  unfolding act_exp_def Let_def
  by (simp split: sum.splits)

text \<open>
  Claim C7, as amended. With \<^verbatim>\<open>return_derivative=True\<close>, \<^verbatim>\<open>componentwise_distance\<close> raises
  \<^verbatim>\<open>ValueError\<close> when \<open>theta\<close> is \<^verbatim>\<open>None\<close> and when the kernel is \<^verbatim>\<open>act_exp\<close>. \<^verbatim>\<open>act_exp\<close>
  never returns a value when \<^verbatim>\<open>derivative_params\<close> is supplied: it raises the "not available"
  \<^verbatim>\<open>ValueError\<close> exactly when the same call without \<^verbatim>\<open>derivative_params\<close> would have returned
  (in value mode: whenever the length of \<open>theta\<close> is a multiple of the non-zero width), and
  otherwise the error that call raises. As the claim is written (a \<^verbatim>\<open>ValueError\<close> whenever
  \<^verbatim>\<open>derivative_params\<close> is supplied) it fails: the length check of \<open>theta\<close> comes first and
  raises a plain \<^verbatim>\<open>Exception\<close>.
\<close>

theorem spatial_derivative_errors:
  "componentwise_distance D corr dim' None True = Inl ValueError \<and>
   componentwise_distance D ''act_exp'' dim' theta True = Inl ValueError \<and>
   act_exp th d grad_ind hess_ind d_x (Some dp) =
     (case act_exp th d grad_ind hess_ind d_x None of Inl e \<Rightarrow> Inl e | Inr r \<Rightarrow> Inl ValueError) \<and>
   (ncols d \<noteq> 0 \<and> length th mod ncols d = 0 \<longrightarrow>
      act_exp th d None None d_x (Some dp) = Inl ValueError)"
proof (intro conjI impI)
  show "componentwise_distance D corr dim' None True = Inl ValueError"
    by (simp add: componentwise_distance_def)
  show "componentwise_distance D ''act_exp'' dim' theta True = Inl ValueError"
    by (cases theta) (simp_all add: componentwise_distance_def)
  show "act_exp th d grad_ind hess_ind d_x (Some dp) =
     (case act_exp th d grad_ind hess_ind d_x None of Inl e \<Rightarrow> Inl e | Inr r \<Rightarrow> Inl ValueError)"
    by (rule act_exp_derivative_params)
  assume "ncols d \<noteq> 0 \<and> length th mod ncols d = 0"
  then show "act_exp th d None None d_x (Some dp) = Inl ValueError"
    by (simp add: act_exp_def Let_def)
qed

theorem spatial_derivative_errors_witness:
  "componentwise_distance \<lparr>ncols = 1, rows = [[1]]\<rparr> ''abs_exp'' 1 None True = Inl ValueError \<and>
   componentwise_distance \<lparr>ncols = 1, rows = [[1]]\<rparr> ''act_exp'' 1 (Some [1]) True = Inl ValueError \<and>
   act_exp [1, 2] \<lparr>ncols = 2, rows = [[1, 2]]\<rparr> None None None (Some Map.empty) = Inl ValueError"
  using spatial_derivative_errors[of "\<lparr>ncols = 1, rows = [[1]]\<rparr>" "''abs_exp''" 1 "Some [1]"
      "[1, 2]" "\<lparr>ncols = 2, rows = [[1, 2]]\<rparr>" None None None Map.empty]
  by auto

theorem spatial_derivative_errors_counterexample:
  "act_exp [1, 2, 3] \<lparr>ncols = 2, rows = [[1, 2]]\<rparr> None None None (Some Map.empty)
     = Inl PyException \<and>
   act_exp [1, 2, 3] \<lparr>ncols = 2, rows = [[1, 2]]\<rparr> None None None (Some Map.empty)
     \<noteq> Inl ValueError"
  by (simp add: act_exp_def)

section \<open>Verification: the Hessian output of squar_exp\<close>

lemma exp_value_mode:
  "length theta = ncols d \<Longrightarrow>
   exp_loops theta d None None = Inr (map (\<lambda>row. exp_value_row theta row 0) (rows d))"
  by (simp add: exp_loops_single_pass exp_single_pass_def)

text \<open>
  Claim C6. With both \<^verbatim>\<open>derivative_params\<close> and \<^verbatim>\<open>hess_params\<close> supplied, \<^verbatim>\<open>squar_exp\<close> is
  meant to return \<open>d2r\<close> of shape (pairs, components, components). The source rebinds \<open>r\<close> to
  \<^verbatim>\<open>r.T\<close> before it reads \<^verbatim>\<open>r.shape[0]\<close>, so the first dimension is \<open>1\<close> and \<^verbatim>\<open>r[k]\<close> is the
  whole row of values: for two pairs the store into \<^verbatim>\<open>d2r[k, i, j]\<close> raises \<^verbatim>\<open>ValueError\<close>.
  Only for a single pair does the call return the claimed entries
  (\<open>squar_exp_hessian_single_pair\<close>).
\<close>

theorem squar_exp_hessian_fails:
  "squar_exp [1, 1] \<lparr>ncols = 2, rows = [[1, 0], [0, 1]]\<rparr> None None
      (Some [''dd'' \<mapsto> \<lparr>ncols = 2, rows = [[1, 0], [0, 1]]\<rparr>])
      (Some [''dd'' \<mapsto> \<lparr>ncols = 2, rows = [[1, 0], [0, 1]]\<rparr>]) = Inl ValueError"
  by (simp add: squar_exp_def exp_value_mode lookup_def einsum_i_ij_def nrows_def
      d2r_cell_def upt_rec[of 0] upt_rec[of 1] upt_rec[of "Suc 0"])

lemma squar_exp_hessian_single_pair:
  "squar_exp [1, 1] \<lparr>ncols = 2, rows = [[1, 2]]\<rparr> None None
      (Some [''dd'' \<mapsto> \<lparr>ncols = 2, rows = [[1, 2]]\<rparr>])
      (Some [''dd'' \<mapsto> \<lparr>ncols = 2, rows = [[1, 2]]\<rparr>])
   = Inr (D2r [[[- exp (- 3), 2 * exp (- 3)], [2 * exp (- 3), 2 * exp (- 3)]]])"
  by (simp add: squar_exp_def exp_value_mode lookup_def einsum_i_ij_def nrows_def
      d2r_cell_def upt_rec[of 0] upt_rec[of 1] upt_rec[of "Suc 0"] exp_value_row_def theta_dot_def)

section \<open>Verification: cross_distances\<close>

lemma pairs_from_done: "n - 1 \<le> a \<Longrightarrow> pairs_from n a = []"
  by (simp add: pairs_from_def)

lemma pairs_from_step:
  "a < n - 1 \<Longrightarrow> pairs_from n a = map (Pair a) [a + 1..<n] @ pairs_from n (a + 1)"
  by (simp add: pairs_from_def upt_conv_Cons)

lemma nested_pairs_from: "nested_pairs n = pairs_from n 0"
proof (cases n)
  case 0 then show ?thesis by (simp add: nested_pairs_def pairs_from_def)
next
  case (Suc m)
  then show ?thesis by (simp add: nested_pairs_def pairs_from_def)
qed

lemma triangle_step: "Suc m * m div 2 = m + m * (m - 1) div 2"
proof (cases m)
  case 0 then show ?thesis by simp
next
  case (Suc k)
  have "Suc (Suc k) * Suc k = 2 * Suc k + Suc k * k" by simp
  then show ?thesis using Suc by simp
qed

lemma length_pairs_from: "a \<le> n \<Longrightarrow> length (pairs_from n a) = (n - a) * (n - a - 1) div 2"
proof (induction "n - a" arbitrary: a)
  case 0
  then show ?case by (simp add: pairs_from_done)
next
  case (Suc m)
  show ?case
  proof (cases "a < n - 1")
    case False
    then have "n - a = 1" using Suc by linarith
    then show ?thesis using False by (simp add: pairs_from_done)
  next
    case True
    have m: "m = n - (a + 1)" using Suc(2) by simp
    have ih: "length (pairs_from n (a + 1)) = (n - (a + 1)) * (n - (a + 1) - 1) div 2"
      using Suc(1)[OF m] True by simp
    have na: "n - a = Suc m" using Suc(2) by simp
    have len: "length (pairs_from n a) = m + length (pairs_from n (a + 1))"
      using True m by (simp add: pairs_from_step)
    have "length (pairs_from n a) = m + m * (m - 1) div 2"
      unfolding len ih m[symmetric] ..
    also have "\<dots> = Suc m * m div 2" by (rule triangle_step[symmetric])
    also have "\<dots> = (n - a) * (n - a - 1) div 2" unfolding na by simp
    finally show ?thesis .
  qed
qed

lemma length_nested_pairs: "length (nested_pairs n) = n * (n - 1) div 2"
  using length_pairs_from[of 0 n] by (simp add: nested_pairs_from)

lemma assign_block:
  "length vs = c \<Longrightarrow> ll + c \<le> length xs \<Longrightarrow>
   assign_slice ll (ll + c) vs xs = take ll xs @ vs @ drop (ll + c) xs"
  by (rule slice_assign_append) (simp_all add: min_def)

lemma slice_len: "ll + c \<le> length xs \<Longrightarrow> length (slice ll (ll + c) xs) = c"
  by (simp add: slice_def)

lemma slice_of_block:
  "ll \<le> length xs \<Longrightarrow> length vs = c \<Longrightarrow> slice ll (ll + c) (take ll xs @ vs @ ys) = vs"
  by (simp add: slice_def min_def)

lemma take_of_block:
  "ll \<le> length xs \<Longrightarrow> length vs = c \<Longrightarrow> take (ll + c) (take ll xs @ vs @ ys) = take ll xs @ vs"
  by (simp add: min_def)

lemma take_ll_of_block:
  "ll \<le> length xs \<Longrightarrow> take ll (take ll xs @ vs @ ys) = take ll xs"
  by (simp add: min_def)

lemma drop_of_block:
  "ll \<le> length xs \<Longrightarrow> length vs = c \<Longrightarrow> drop (ll + c) (take ll xs @ vs @ ys) = ys"
  by (simp add: min_def)

lemma length_block:
  "length vs = c \<Longrightarrow> ll + c \<le> length xs \<Longrightarrow>
   length (take ll xs @ vs @ drop (ll + c) xs) = length xs"
  by (auto simp: min_def)

lemma map2_fst_const:
  "length zs = length js \<Longrightarrow>
   map2 (\<lambda>p j. (fst p, j)) (map (\<lambda>p. (a, snd p)) zs) js = map (Pair a) js"
  by (induction zs js rule: list_induct2) auto

lemma drop_as_map_nth: "drop a xs = map (\<lambda>j. xs ! j) [a..<length xs]"
  by (simp add: list_eq_iff_nth_eq)

lemma self_step_block:
  assumes a: "a < n - 1" and X: "length X = n"
    and len: "ll + (n - a - 1) \<le> length ij" "length D = length ij"
  shows "self_step X n a (ll, ij, D) =
     (ll + (n - a - 1),
      take ll ij @ map (Pair a) [a + 1..<n] @ drop (ll + (n - a - 1)) ij,
      take ll D @ map (\<lambda>j. row_diff (X ! a) (X ! j)) [a + 1..<n] @ drop (ll + (n - a - 1)) D)"
proof -
  let ?c = "n - a - 1"
  let ?hi = "ll + ?c"
  have hi: "ll + n - a - 1 = ?hi" using a by simp
  let ?v1 = "map (\<lambda>p. (a, snd p)) (slice ll ?hi ij)"
  have l1: "length ?v1 = ?c" using len(1) by (simp add: slice_len)
  have ij1: "assign_slice ll ?hi ?v1 ij = take ll ij @ ?v1 @ drop ?hi ij"
    using l1 len(1) by (rule assign_block)
  let ?ij1 = "take ll ij @ ?v1 @ drop ?hi ij"
  have ll: "ll \<le> length ij" "ll \<le> length D" using len by simp_all
  have s1: "slice ll ?hi ?ij1 = ?v1"
    using ll(1) l1 by (rule slice_of_block)
  let ?v2 = "map2 (\<lambda>p j. (fst p, j)) ?v1 [a + 1..<n]"
  have v2: "?v2 = map (Pair a) [a + 1..<n]"
    using len(1) by (intro map2_fst_const) (simp add: slice_len)
  have lij1: "length ?ij1 = length ij" using l1 len(1) by (rule length_block)
  have l2: "length (map (Pair a) [a + 1..<n]) = ?c" by simp
  have "ll + ?c \<le> length ?ij1" using len(1) lij1 by simp
  with l2 have ij2: "assign_slice ll ?hi (map (Pair a) [a + 1..<n]) ?ij1
      = take ll ?ij1 @ map (Pair a) [a + 1..<n] @ drop ?hi ?ij1"
    by (rule assign_block)
  have t: "take ll ?ij1 = take ll ij" using ll(1) by (rule take_ll_of_block)
  have d: "drop ?hi ?ij1 = drop ?hi ij" using ll(1) l1 by (rule drop_of_block)
  let ?vD = "map (\<lambda>xj. row_diff (X ! a) xj) (slice (a + 1) n X)"
  have sl: "slice (a + 1) n X = map (\<lambda>j. X ! j) [a + 1..<n]"
    using X drop_as_map_nth[of "a + 1" X] by (simp add: slice_def)
  have vD: "?vD = map (\<lambda>j. row_diff (X ! a) (X ! j)) [a + 1..<n]"
    unfolding sl by (simp add: comp_def)
  have lD: "length (map (\<lambda>j. row_diff (X ! a) (X ! j)) [a + 1..<n]) = ?c" by simp
  have "ll + ?c \<le> length D" using len by simp
  with lD have D': "assign_slice ll ?hi (map (\<lambda>j. row_diff (X ! a) (X ! j)) [a + 1..<n]) D
      = take ll D @ map (\<lambda>j. row_diff (X ! a) (X ! j)) [a + 1..<n] @ drop ?hi D"
    by (rule assign_block)
  show ?thesis
    unfolding self_step_def Let_def prod.case hi ij1 s1 v2 ij2 t d vD D' ..
qed

lemma self_fold:
  assumes X: "length X = n"
  shows "ll + length (pairs_from n a) = length ij \<Longrightarrow> length D = length ij \<Longrightarrow>
     fold (self_step X n) [a..<n - 1] (ll, ij, D) =
       (length ij, take ll ij @ pairs_from n a, take ll D @ map (pair_diff X) (pairs_from n a))"
proof (induction "n - 1 - a" arbitrary: a ll ij D)
  case 0
  then have "n - 1 \<le> a" by simp
  then show ?case using 0 by (simp add: pairs_from_done)
next
  case (Suc m)
  then have a: "a < n - 1" by simp
  let ?c = "n - a - 1"
  have pf: "pairs_from n a = map (Pair a) [a + 1..<n] @ pairs_from n (a + 1)"
    using a by (rule pairs_from_step)
  have lenp: "length (pairs_from n a) = ?c + length (pairs_from n (a + 1))"
    by (simp add: pf)
  have c: "ll + ?c \<le> length ij" using Suc(3) lenp by simp
  have ll: "ll \<le> length ij" "ll \<le> length D" using c Suc(4) by simp_all
  let ?ij = "take ll ij @ map (Pair a) [a + 1..<n] @ drop (ll + ?c) ij"
  let ?D = "take ll D @ map (\<lambda>j. row_diff (X ! a) (X ! j)) [a + 1..<n] @ drop (ll + ?c) D"
  have step: "self_step X n a (ll, ij, D) = (ll + ?c, ?ij, ?D)"
    using self_step_block[OF a X c Suc(4)] .
  have lij: "length ?ij = length ij"
    by (rule length_block) (use c in simp_all)
  have lD: "length ?D = length ij"
    using length_block[of "map (\<lambda>j. row_diff (X ! a) (X ! j)) [a + 1..<n]" ?c ll D] c Suc(4)
    by (simp del: length_append)
  have m: "m = n - 1 - (a + 1)" using Suc(2) by simp
  have ih: "fold (self_step X n) [a + 1..<n - 1] (ll + ?c, ?ij, ?D) =
      (length ?ij, take (ll + ?c) ?ij @ pairs_from n (a + 1),
       take (ll + ?c) ?D @ map (pair_diff X) (pairs_from n (a + 1)))"
    using Suc(1)[OF m, of "ll + ?c" ?ij ?D] Suc(3) lenp lij lD by simp
  have t1: "take (ll + ?c) ?ij = take ll ij @ map (Pair a) [a + 1..<n]"
    by (rule take_of_block) (use ll in simp_all)
  have t2: "take (ll + ?c) ?D = take ll D @ map (\<lambda>j. row_diff (X ! a) (X ! j)) [a + 1..<n]"
    by (rule take_of_block) (use ll in simp_all)
  have md: "map (pair_diff X) (pairs_from n a) =
      map (\<lambda>j. row_diff (X ! a) (X ! j)) [a + 1..<n] @ map (pair_diff X) (pairs_from n (a + 1))"
    by (simp add: pf pair_diff_def comp_def)
  have "fold (self_step X n) [a..<n - 1] (ll, ij, D) =
      fold (self_step X n) [a + 1..<n - 1] (self_step X n a (ll, ij, D))"
    using a by (simp add: upt_conv_Cons)
  then show ?case
    unfolding step ih t1 t2 lij md pf by (simp add: pair_diff_def)
qed

lemma cross_distances_self:
  "cross_distances X None =
     Inr (\<lparr>ncols = ncols X, rows = map (pair_diff (rows X)) (nested_pairs (nrows X))\<rparr>,
          nested_pairs (nrows X))"
proof -
  let ?n = "nrows X" and ?N = "nrows X * (nrows X - 1) div 2"
  have N: "length (pairs_from ?n 0) = ?N"
    using length_nested_pairs[of ?n] by (simp add: nested_pairs_from)
  have "fold (self_step (rows X) ?n) [0..<?n - 1]
          (0, replicate ?N (0, 0), replicate ?N (replicate (ncols X) 0)) =
        (?N, pairs_from ?n 0, map (pair_diff (rows X)) (pairs_from ?n 0))"
    using self_fold[of "rows X" ?n 0 0 "replicate ?N (0, 0)" "replicate ?N (replicate (ncols X) 0)"] N
    by (simp add: nrows_def)
  then show ?thesis
    by (simp add: cross_distances_def Let_def nested_pairs_from)
qed

lemma cross_fold:
  "m \<le> length ij \<Longrightarrow> length D = length ij \<Longrightarrow>
   fold (cross_step X Y n_y) [0..<m] (ij, D) =
     (map (\<lambda>k. (k div n_y, k mod n_y)) [0..<m] @ drop m ij,
      map (\<lambda>k. row_diff (X ! (k div n_y)) (Y ! (k mod n_y))) [0..<m] @ drop m D)"
proof (induction m)
  case 0
  then show ?case by simp
next
  case (Suc m)
  have m: "m < length ij" "m < length D" using Suc(2,3) by simp_all
  have upd: "(xs @ drop m zs)[m := v] = xs @ [v] @ drop (Suc m) zs"
    if "length xs = m" "m < length zs" for xs zs :: "'b list" and v
  proof -
    have "drop m zs = zs ! m # drop (Suc m) zs" using that(2) by (simp add: Cons_nth_drop_Suc)
    then show ?thesis using that(1) by (simp add: list_update_append)
  qed
  have ih: "fold (cross_step X Y n_y) [0..<m] (ij, D) =
     (map (\<lambda>k. (k div n_y, k mod n_y)) [0..<m] @ drop m ij,
      map (\<lambda>k. row_diff (X ! (k div n_y)) (Y ! (k mod n_y))) [0..<m] @ drop m D)"
    using Suc by simp
  have "fold (cross_step X Y n_y) [0..<Suc m] (ij, D) =
      cross_step X Y n_y m (fold (cross_step X Y n_y) [0..<m] (ij, D))"
    by simp
  also have "\<dots> = cross_step X Y n_y m
     (map (\<lambda>k. (k div n_y, k mod n_y)) [0..<m] @ drop m ij,
      map (\<lambda>k. row_diff (X ! (k div n_y)) (Y ! (k mod n_y))) [0..<m] @ drop m D)"
    by (simp only: ih)
  also have "\<dots> =
     (map (\<lambda>k. (k div n_y, k mod n_y)) [0..<Suc m] @ drop (Suc m) ij,
      map (\<lambda>k. row_diff (X ! (k div n_y)) (Y ! (k mod n_y))) [0..<Suc m] @ drop (Suc m) D)"
    using upd[of "map (\<lambda>k. (k div n_y, k mod n_y)) [0..<m]" ij "(m div n_y, m mod n_y)"]
      upd[of "map (\<lambda>k. row_diff (X ! (k div n_y)) (Y ! (k mod n_y))) [0..<m]" D
             "row_diff (X ! (m div n_y)) (Y ! (m mod n_y))"] m
    by (simp add: cross_step_def Let_def)
  finally show ?case .
qed

lemma cross_distances_cross:
  "ncols X = ncols Y \<Longrightarrow>
   cross_distances X (Some Y) =
     Inr (\<lparr>ncols = ncols Y,
           rows = map (\<lambda>k. row_diff (rows X ! (k div nrows Y)) (rows Y ! (k mod nrows Y)))
                    [0..<nrows X * nrows Y]\<rparr>,
          map (\<lambda>k. (k div nrows Y, k mod nrows Y)) [0..<nrows X * nrows Y])"
  using cross_fold[of "nrows X * nrows Y" "replicate (nrows X * nrows Y) (0, 0)"
      "replicate (nrows X * nrows Y) (replicate (ncols Y) 0)" "rows X" "rows Y" "nrows Y"]
  by (simp add: cross_distances_def check_pairwise_arrays_def Let_def)

lemma cross_distances_mismatch:
  "ncols X \<noteq> ncols Y \<Longrightarrow> cross_distances X (Some Y) = Inl ValueError"
  by (simp add: cross_distances_def check_pairwise_arrays_def Let_def)

lemma set_nested_pairs: "set (nested_pairs n) = {(i, j). i < j \<and> j < n}"
  by (force simp: nested_pairs_def)

lemma row_diff_swap: "row_diff x y = map uminus (row_diff y x)"
proof -
  have "map2 (-) x y = map (\<lambda>(a, b). - (b - a)) (zip x y)" by simp
  also have "\<dots> = map uminus (map2 (-) y x)"
    by (induction x y rule: list_induct2') auto
  finally show ?thesis by (simp add: row_diff_def)
qed

lemma nested_pairs_3: "nested_pairs 3 = [(0, 1), (0, 2), (1, 2)]"
  by (simp add: nested_pairs_def eval_nat_numeral)

text \<open>
  Claim C4. For every matrix \<open>X\<close> with \<open>n\<close> rows, \<^verbatim>\<open>cross_distances(X)\<close> returns the
  \<open>n(n-1)/2\<close> pairs in nested ascending order (outer index \<open>i\<close> ascending, inner index
  \<open>j > i\<close> ascending) and the row of \<open>D\<close> for the pair \<open>(i, j)\<close> is \<open>X[i] - X[j]\<close>; for
  \<open>X = [[0,0],[1,0],[0,1]]\<close> the pairs are \<open>[(0,1),(0,2),(1,2)]\<close> and the rows of \<open>D\<close> are
  \<open>[[-1,0],[0,-1],[1,-1]]\<close>, in that order.
\<close>

theorem cross_distances_self_mode:
  "cross_distances X None =
     Inr (\<lparr>ncols = ncols X,
           rows = map (\<lambda>(i, j). row_diff (rows X ! i) (rows X ! j)) (nested_pairs (nrows X))\<rparr>,
          nested_pairs (nrows X)) \<and>
   length (nested_pairs (nrows X)) = nrows X * (nrows X - 1) div 2 \<and>
   cross_distances \<lparr>ncols = 2, rows = [[0, 0], [1, 0], [0, 1]]\<rparr> None =
     Inr (\<lparr>ncols = 2, rows = [[- 1, 0], [0, - 1], [1, - 1]]\<rparr>, [(0, 1), (0, 2), (1, 2)])"
proof -
  have pd: "pair_diff Z = (\<lambda>(i, j). row_diff (Z ! i) (Z ! j))" for Z
    by (auto simp: pair_diff_def fun_eq_iff)
  have a: "cross_distances X None =
     Inr (\<lparr>ncols = ncols X,
           rows = map (\<lambda>(i, j). row_diff (rows X ! i) (rows X ! j)) (nested_pairs (nrows X))\<rparr>,
          nested_pairs (nrows X))" for X
    by (simp add: cross_distances_self pd)
  have "cross_distances \<lparr>ncols = 2, rows = [[0, 0], [1, 0], [0, 1]]\<rparr> None =
     Inr (\<lparr>ncols = 2, rows = [[- 1, 0], [0, - 1], [1, - 1]]\<rparr>, [(0, 1), (0, 2), (1, 2)])"
  proof -
    have n: "nrows \<lparr>ncols = 2, rows = [[0, 0], [1, 0], [0, 1]]\<rparr> = 3"
      by (simp add: nrows_def)
    show ?thesis
      unfolding a n nested_pairs_3 by (simp add: row_diff_def)
  qed
  then show ?thesis using a[of X] length_nested_pairs[of "nrows X"] by simp
qed

theorem cross_distances_self_mode_witness:
  "cross_distances \<lparr>ncols = 1, rows = [[5], [3]]\<rparr> None =
     Inr (\<lparr>ncols = 1, rows = [[2]]\<rparr>, [(0, 1)])"
  using cross_distances_self_mode[of "\<lparr>ncols = 1, rows = [[5], [3]]\<rparr>"]
  by (simp add: nrows_def nested_pairs_def row_diff_def eval_nat_numeral)

text \<open>
  Claim C5. For \<open>X\<close> with \<open>n\<close> rows and \<open>Y\<close> with \<open>m\<close> rows of equal column count,
  \<^verbatim>\<open>cross_distances(X, Y)\<close> returns the \<open>n \<sqdot> m\<close> pairs \<open>(k div m, k mod m)\<close> in row-major
  order with row \<open>k\<close> of \<open>D\<close> equal to \<open>X[k div m] - Y[k mod m]\<close>. Consequently every pair
  \<open>i < j\<close> of the self mode sits at some position \<open>p\<close>, and the row of \<open>D\<close> at \<open>p\<close> is the
  negation of the row of \<^verbatim>\<open>cross_distances(X, X)\<close> for the reversed pair \<open>(j, i)\<close>, which sits at
  position \<open>j \<sqdot> n + i\<close>.
\<close>

theorem cross_distances_cross_mode:
  "(ncols X = ncols Y \<longrightarrow>
      cross_distances X (Some Y) =
        Inr (\<lparr>ncols = ncols Y,
              rows = map (\<lambda>k. row_diff (rows X ! (k div nrows Y)) (rows Y ! (k mod nrows Y)))
                       [0..<nrows X * nrows Y]\<rparr>,
             map (\<lambda>k. (k div nrows Y, k mod nrows Y)) [0..<nrows X * nrows Y])) \<and>
   (\<exists>Ds ijs Dc ijc.
      cross_distances X None = Inr (Ds, ijs) \<and> cross_distances X (Some X) = Inr (Dc, ijc) \<and>
      (\<forall>i j. i < j \<and> j < nrows X \<longrightarrow> (i, j) \<in> set ijs) \<and>
      (\<forall>p < length ijs. case ijs ! p of (i, j) \<Rightarrow>
          i < j \<and> j < nrows X \<and> ijc ! (j * nrows X + i) = (j, i) \<and>
          rows Ds ! p = map uminus (rows Dc ! (j * nrows X + i))))"
proof (intro conjI impI)
  assume "ncols X = ncols Y"
  then show "cross_distances X (Some Y) =
        Inr (\<lparr>ncols = ncols Y,
              rows = map (\<lambda>k. row_diff (rows X ! (k div nrows Y)) (rows Y ! (k mod nrows Y)))
                       [0..<nrows X * nrows Y]\<rparr>,
             map (\<lambda>k. (k div nrows Y, k mod nrows Y)) [0..<nrows X * nrows Y])"
    by (rule cross_distances_cross)
next
  let ?n = "nrows X"
  let ?Ds = "\<lparr>ncols = ncols X, rows = map (pair_diff (rows X)) (nested_pairs ?n)\<rparr>"
  let ?Dc = "\<lparr>ncols = ncols X,
              rows = map (\<lambda>k. row_diff (rows X ! (k div ?n)) (rows X ! (k mod ?n))) [0..<?n * ?n]\<rparr>"
  let ?ijc = "map (\<lambda>k. (k div ?n, k mod ?n)) [0..<?n * ?n]"
  have s: "cross_distances X None = Inr (?Ds, nested_pairs ?n)"
    by (rule cross_distances_self)
  have c: "cross_distances X (Some X) = Inr (?Dc, ?ijc)"
    using cross_distances_cross[of X X] by simp
  have all: "\<forall>i j. i < j \<and> j < ?n \<longrightarrow> (i, j) \<in> set (nested_pairs ?n)"
    by (simp add: set_nested_pairs)
  have rowsp: "\<forall>p < length (nested_pairs ?n). case nested_pairs ?n ! p of (i, j) \<Rightarrow>
          i < j \<and> j < ?n \<and> ?ijc ! (j * ?n + i) = (j, i) \<and>
          rows ?Ds ! p = map uminus (rows ?Dc ! (j * ?n + i))"
  proof (intro allI impI)
    fix p assume p: "p < length (nested_pairs ?n)"
    obtain i j where ij: "nested_pairs ?n ! p = (i, j)" by (cases "nested_pairs ?n ! p")
    have "(i, j) \<in> set (nested_pairs ?n)" using p ij by (metis nth_mem)
    then have lt: "i < j" "j < ?n" by (simp_all add: set_nested_pairs)
    then have i: "i < ?n" by simp
    have "j * ?n + i < j * ?n + ?n" using i by simp
    also have "\<dots> = Suc j * ?n" by simp
    also have "\<dots> \<le> ?n * ?n" using lt(2) by (simp add: Suc_leI mult_le_mono1 del: mult_Suc)
    finally have k: "j * ?n + i < ?n * ?n" .
    have dm: "(j * ?n + i) div ?n = j" "(j * ?n + i) mod ?n = i" using i by simp_all
    have "rows ?Ds ! p = row_diff (rows X ! i) (rows X ! j)"
      using p ij by (simp add: pair_diff_def)
    also have "\<dots> = map uminus (row_diff (rows X ! j) (rows X ! i))" by (rule row_diff_swap)
    also have "\<dots> = map uminus (rows ?Dc ! (j * ?n + i))" using k dm by simp
    finally have r: "rows ?Ds ! p = map uminus (rows ?Dc ! (j * ?n + i))" .
    have "?ijc ! (j * ?n + i) = (j, i)" using k dm by simp
    then show "case nested_pairs ?n ! p of (i, j) \<Rightarrow>
          i < j \<and> j < ?n \<and> ?ijc ! (j * ?n + i) = (j, i) \<and>
          rows ?Ds ! p = map uminus (rows ?Dc ! (j * ?n + i))"
      using ij lt r by simp
  qed
  show "\<exists>Ds ijs Dc ijc.
      cross_distances X None = Inr (Ds, ijs) \<and> cross_distances X (Some X) = Inr (Dc, ijc) \<and>
      (\<forall>i j. i < j \<and> j < nrows X \<longrightarrow> (i, j) \<in> set ijs) \<and>
      (\<forall>p < length ijs. case ijs ! p of (i, j) \<Rightarrow>
          i < j \<and> j < nrows X \<and> ijc ! (j * nrows X + i) = (j, i) \<and>
          rows Ds ! p = map uminus (rows Dc ! (j * nrows X + i)))"
    using s c all rowsp by blast
qed

theorem cross_distances_cross_mode_witness:
  "cross_distances \<lparr>ncols = 2, rows = [[1, 2]]\<rparr> (Some \<lparr>ncols = 2, rows = [[0, 1], [3, 5]]\<rparr>) =
     Inr (\<lparr>ncols = 2, rows = [[1, 1], [- 2, - 3]]\<rparr>, [(0, 0), (0, 1)])"
  using cross_distances_cross_mode[of "\<lparr>ncols = 2, rows = [[1, 2]]\<rparr>"
      "\<lparr>ncols = 2, rows = [[0, 1], [3, 5]]\<rparr>"]
  by (simp add: nrows_def row_diff_def eval_nat_numeral)

section \<open>Verification: the Gower distance\<close>




lemma length_put_cols [simp]: "length (put_cols ms xs vs) = length xs"
  by (induction ms xs vs rule: put_cols.induct) auto
























lemma length_cat_features [simp]: "length (cat_features_of xtypes) = length xtypes"
  by (simp add: cat_features_of_def)














text \<open>The function on small arrays, in exact arithmetic.\<close>

lemmas gower_eval_defs =
  gower_componentwise_distances_def alloc_def cat_features_of_def count_true_def sel_def
  col_stats_def column_def divide_where_def write_cols_def nrows_def exact_arith_def
  gower_cross_row_def gower_cross_D_def gower_self_D_def gower_num_step_def gower_cat_step_def
  assign_slice_def slice_def Let_def

lemma upt_3: "[0..<3] = [0, 1, 2]" "[0..<2] = [0, 1]" "[1..<3] = [1, 2]" "[2..<3] = [2]"
   "[Suc 0..<3] = [1, 2]" "[Suc (Suc 0)..<3] = [2]"
  by (simp_all add: upt_rec)



lemma gower_categorical_example:
  "gower_componentwise_distances exact_arith
     [\<lparr>ncols = 1, rows = [[0], [1], [0]]\<rparr>] 0 None [ENUM 2]
   = Inr (Self \<lparr>ncols = 1, rows = [[1], [0], [1]]\<rparr> [(0, 1), (0, 2), (1, 2)]
            \<lparr>ncols = 0, rows = [[], [], []]\<rparr>,
          [\<lparr>ncols = 1, rows = [[0], [1], [0]]\<rparr>, \<lparr>ncols = 1, rows = [[0], [1], [0]]\<rparr>])"
  by (simp add: gower_eval_defs upt_3)





section \<open>Verification: the caller's arrays after a call\<close>

text \<open>
  Claim C9. \<^verbatim>\<open>cross_distances\<close> and \<^verbatim>\<open>differences\<close> only read \<open>X\<close> and \<open>Y\<close> (their models are
  functions of the two arrays and write to fresh arrays only), and \<^verbatim>\<open>gower_componentwise_distances\<close>
  works on the copy \<^verbatim>\<open>X.astype(np.float)\<close> of \<open>X\<close>. It takes no copy of \<open>y\<close>: in cross mode
  \<^verbatim>\<open>Y_norma\<close> is the caller's own array, and
  \<^verbatim>\<open>Y_norma[:, np.logical_not(cat_features)] = Y_num\<close> overwrites its continuous columns with the
  normalised values. In the store below, reference \<open>0\<close> is the caller's \<open>X\<close> and reference \<open>1\<close>
  the caller's \<open>y = [[2], [4]]\<close>; after the call reference \<open>1\<close> holds \<open>[[1/2], [1]]\<close>. Every
  value of the run (\<open>4\<close>, \<open>2\<close>, \<open>1/2\<close>, \<open>1/4\<close>, \<open>1\<close>, \<open>3/4\<close>, \<open>3/2\<close>) is a floating-point number in
  both precisions and every operation on them is exact, so the exact arithmetic computes what
  the floating-point run does.
\<close>

theorem gower_mutates_y:
  "gower_componentwise_distances exact_arith
     [\<lparr>ncols = 1, rows = [[1]]\<rparr>, \<lparr>ncols = 1, rows = [[2], [4]]\<rparr>] 0 (Some 1) [FLOAT]
   = Inr (Cross \<lparr>ncols = 1, rows = [[1 / 2], [3 / 2]]\<rparr>,
          [\<lparr>ncols = 1, rows = [[1]]\<rparr>, \<lparr>ncols = 1, rows = [[1 / 2], [1]]\<rparr>,
           \<lparr>ncols = 1, rows = [[1 / 4]]\<rparr>])"
  by (simp add: gower_eval_defs)

end
